theory Spec2Isabelle
  imports Complex_Main "HOL-Library.Sublist"
begin

section \<open>Values exchanged with the inference service and the UI driver\<close>

text \<open>
  The locator generator works on whatever \<^verbatim>\<open>json.loads\<close> returns for the reply of the
  text-generation service: nested dictionaries, lists, strings, numbers, booleans and
  \<^verbatim>\<open>None\<close>. A dictionary is an association list in insertion order, read with
  \<^const>\<open>map_of\<close>; its keys are distinct, as the keys of a Python dictionary are.
  Numbers are idealised as reals: no claim below depends on rounding.
\<close>

datatype json =
    JNull
  | JBool bool
  | JNum real
  | JStr string
  | JArr "json list"
  | JObj "(string \<times> json) list"

text \<open>
  The exceptions the modelled code can raise. \<open>KeyError\<close> carries the missing key, the
  two exceptions raised with a message carry the message. \<open>WebDriverException\<close> stands
  for any exception of a driver call that the resolver does not handle, and carries its
  name.
\<close>

datatype py_error =
    KeyError string
  | TypeError
  | AttributeError
  | ValueError string
  | NoSuchElementException string
  | WebDriverException string

text \<open>Truth value of an object in a condition (\<^verbatim>\<open>if value\<close>).\<close>

fun py_truthy :: "json \<Rightarrow> bool" where
  "py_truthy JNull = False"
| "py_truthy (JBool b) = b"
| "py_truthy (JNum x) = (x \<noteq> 0)"
| "py_truthy (JStr s) = (s \<noteq> [])"
| "py_truthy (JArr xs) = (xs \<noteq> [])"
| "py_truthy (JObj kvs) = (kvs \<noteq> [])"

text \<open>\<^verbatim>\<open>d.get(k, default)\<close>: only dictionaries have the method.\<close>

fun py_get :: "json \<Rightarrow> string \<Rightarrow> json \<Rightarrow> py_error + json" where
  "py_get (JObj kvs) k dflt = Inr (case map_of kvs k of None \<Rightarrow> dflt | Some v \<Rightarrow> v)"
| "py_get _ k dflt = Inl AttributeError"

text \<open>
  \<^verbatim>\<open>d[k]\<close> with a string key: a dictionary without the key raises \<open>KeyError\<close>, every other
  object raises \<open>TypeError\<close> (strings and lists take integer indices only, the rest is not
  subscriptable).
\<close>

fun py_item :: "json \<Rightarrow> string \<Rightarrow> py_error + json" where
  "py_item (JObj kvs) k = (case map_of kvs k of None \<Rightarrow> Inl (KeyError k) | Some v \<Rightarrow> Inr v)"
| "py_item _ k = Inl TypeError"

text \<open>\<^verbatim>\<open>len(x)\<close>.\<close>

fun py_len :: "json \<Rightarrow> py_error + nat" where
  "py_len (JStr s) = Inr (length s)"
| "py_len (JArr xs) = Inr (length xs)"
| "py_len (JObj kvs) = Inr (length kvs)"
| "py_len _ = Inl TypeError"

text \<open>\<^verbatim>\<open>sub in s\<close> on strings: \<open>sub\<close> occurs somewhere in \<open>s\<close>.\<close>

fun str_contains :: "string \<Rightarrow> string \<Rightarrow> bool" where
  "str_contains sub [] = (sub = [])"
| "str_contains sub (c # cs) = (prefix sub (c # cs) \<or> str_contains sub cs)"

text \<open>
  \<^verbatim>\<open>s.count(sub)\<close> on strings: the number of non-overlapping occurrences of \<open>sub\<close>,
  scanning from the left (\<open>len(s) + 1\<close> for the empty \<open>sub\<close>).
\<close>

function str_count :: "string \<Rightarrow> string \<Rightarrow> nat" where
  "str_count sub [] = (if sub = [] then 1 else 0)"
| "str_count sub (c # cs) =
     (if sub = [] then length cs + 2
      else if prefix sub (c # cs) then Suc (str_count sub (drop (length sub) (c # cs)))
      else str_count sub cs)"
  by pat_completeness auto
termination
  by (relation "measure (\<lambda>(sub, s). length s)") (auto simp: neq_Nil_conv)

text \<open>
  \<^verbatim>\<open>s in x\<close> with a string on the left: substring test on a string, element test on a
  list, key test on a dictionary; the other objects are not iterable.
\<close>

fun str_in :: "string \<Rightarrow> json \<Rightarrow> py_error + bool" where
  "str_in s (JStr t) = Inr (str_contains s t)"
| "str_in s (JArr xs) = Inr (JStr s \<in> set xs)"
| "str_in s (JObj kvs) = Inr (s \<in> fst ` set kvs)"
| "str_in s _ = Inl TypeError"

text \<open>
  \<^verbatim>\<open>x.count(s)\<close> with a string argument: strings and lists have the method, the other
  objects do not.
\<close>

fun py_count :: "json \<Rightarrow> string \<Rightarrow> py_error + nat" where
  "py_count (JStr t) s = Inr (str_count s t)"
| "py_count (JArr xs) s = Inr (count_list xs (JStr s))"
| "py_count _ s = Inl AttributeError"

text \<open>
  \<^verbatim>\<open>x in names\<close> where \<open>names\<close> is a list of strings: a string never equals an object of
  another type.
\<close>

fun in_strs :: "json \<Rightarrow> string list \<Rightarrow> bool" where
  "in_strs (JStr s) names = (s \<in> set names)"
| "in_strs _ names = False"

text \<open>
  \<^verbatim>\<open>for a in x\<close>: the elements of a list, the characters of a string, the keys of a
  dictionary; the other objects are not iterable.
\<close>

fun py_iter :: "json \<Rightarrow> py_error + json list" where
  "py_iter (JArr xs) = Inr xs"
| "py_iter (JStr s) = Inr (map (\<lambda>c. JStr [c]) s)"
| "py_iter (JObj kvs) = Inr (map (\<lambda>kv. JStr (fst kv)) kvs)"
| "py_iter _ = Inl TypeError"

section \<open>Locator quality (\<^verbatim>\<open>_assess_locator_quality\<close>)\<close>

datatype LocatorQuality = EXCELLENT | GOOD | ACCEPTABLE | POOR

text \<open>
  One arm of an \<^verbatim>\<open>if\<close>/\<^verbatim>\<open>elif\<close> chain whose arms all return: the condition may raise,
  hold (the arm's value is returned) or fail (the rest of the chain decides).
\<close>

definition elif :: "py_error + bool \<Rightarrow> 'a \<Rightarrow> py_error + 'a \<Rightarrow> py_error + 'a" where
  "elif c r rest = (case c of Inl e \<Rightarrow> Inl e | Inr b \<Rightarrow> if b then Inr r else rest)"

text \<open>\<^verbatim>\<open>strategy == name and value and not '//' in value\<close>, evaluated left to right.\<close>

definition named_without_double_slash :: "json \<Rightarrow> string \<Rightarrow> json \<Rightarrow> py_error + bool" where
  "named_without_double_slash strategy name val =
     (if strategy = JStr name \<and> py_truthy val
      then (case str_in ''//'' val of Inl e \<Rightarrow> Inl e | Inr b \<Rightarrow> Inr (\<not> b))
      else Inr False)"

text \<open>\<^verbatim>\<open>strategy == 'xpath' and value.count('/') <= k\<close>.\<close>

definition xpath_slashes_at_most :: "json \<Rightarrow> json \<Rightarrow> nat \<Rightarrow> py_error + bool" where
  "xpath_slashes_at_most strategy val k =
     (if strategy = JStr ''xpath''
      then (case py_count val ''/'' of Inl e \<Rightarrow> Inl e | Inr n \<Rightarrow> Inr (n \<le> k))
      else Inr False)"

definition assess_locator_quality :: "json \<Rightarrow> py_error + LocatorQuality" where
  "assess_locator_quality locator =
     (case py_get locator ''strategy'' (JStr '''') of
        Inl e \<Rightarrow> Inl e
      | Inr strategy \<Rightarrow>
         (case py_get locator ''value'' (JStr '''') of
            Inl e \<Rightarrow> Inl e
          | Inr val \<Rightarrow>
              elif (named_without_double_slash strategy ''id'' val) EXCELLENT
             (elif (Inr (strategy = JStr ''accessibility_id'' \<and> py_truthy val)) EXCELLENT
             (elif (named_without_double_slash strategy ''class_name'' val) GOOD
             (elif (xpath_slashes_at_most strategy val 3) GOOD
             (elif (xpath_slashes_at_most strategy val 6) ACCEPTABLE
             (Inr POOR)))))))"


text \<open>
  The rule table of the specification, with the two tests it leaves to a
  ``path-separator token'' kept apart: \<open>sep\<close> is the token whose presence disqualifies an
  \<open>id\<close> or \<open>class_name\<close> value, \<open>tok\<close> the token whose occurrences are the path depth.
  The specification's wording uses one token for both (\<open>sep = tok\<close>).
\<close>

definition quality_table :: "string \<Rightarrow> string \<Rightarrow> string \<Rightarrow> string \<Rightarrow> LocatorQuality" where
  "quality_table sep tok strategy v =
     (if strategy = ''id'' \<and> v \<noteq> [] \<and> \<not> str_contains sep v then EXCELLENT
      else if strategy = ''accessibility_id'' \<and> v \<noteq> [] then EXCELLENT
      else if strategy = ''class_name'' \<and> v \<noteq> [] \<and> \<not> str_contains sep v then GOOD
      else if strategy = ''xpath'' \<and> str_count tok v \<le> 3 then GOOD
      else if strategy = ''xpath'' \<and> str_count tok v \<le> 6 then ACCEPTABLE
      else POOR)"

text \<open>The tier ordering \<open>excellent > good > acceptable > poor\<close>.\<close>

fun tier_rank :: "LocatorQuality \<Rightarrow> nat" where
  "tier_rank EXCELLENT = 3"
| "tier_rank GOOD = 2"
| "tier_rank ACCEPTABLE = 1"
| "tier_rank POOR = 0"

text \<open>
  A dictionary entry as the declared type \<^verbatim>\<open>Dict[str, str]\<close> allows it: absent or a string;
  and its reading as a string, empty when absent.
\<close>

definition str_or_absent :: "(string \<times> json) list \<Rightarrow> string \<Rightarrow> bool" where
  "str_or_absent kvs k =
     (case map_of kvs k of None \<Rightarrow> True | Some (JStr s) \<Rightarrow> True | Some _ \<Rightarrow> False)"

definition str_field :: "(string \<times> json) list \<Rightarrow> string \<Rightarrow> string" where
  "str_field kvs k = (case map_of kvs k of Some (JStr s) \<Rightarrow> s | _ \<Rightarrow> [])"

section \<open>Schema validation (\<^verbatim>\<open>_validate_generated_locator\<close>)\<close>

text \<open>
  The three enumerations \<^verbatim>\<open>_load_locator_schema\<close> reads from the schema file into the
  generator. The file is not part of the sources, so the functions below take the
  enumerations as a parameter.
\<close>

record schema =
  supported_strategies :: "string list"
  supported_actions :: "string list"
  element_types :: "string list"

definition required_fields :: "string list" where
  "required_fields = [''element_name'', ''element_type'', ''primary_locator'']"

text \<open>
  \<^verbatim>\<open>for field in required_fields: if field not in locator_data: return False\<close>.
  \<open>Inr True\<close> means that the loop ran to its end.
\<close>

fun required_loop :: "json \<Rightarrow> string list \<Rightarrow> py_error + bool" where
  "required_loop d [] = Inr True"
| "required_loop d (f # fs) =
     (case str_in f d of
        Inl e \<Rightarrow> Inl e
      | Inr present \<Rightarrow> if \<not> present then Inr False else required_loop d fs)"

text \<open>\<^verbatim>\<open>for action in ...: if action not in self.supported_actions: return False\<close>.\<close>

fun actions_loop :: "schema \<Rightarrow> json list \<Rightarrow> bool" where
  "actions_loop reg [] = True"
| "actions_loop reg (a # as) =
     (if \<not> in_strs a (supported_actions reg) then False else actions_loop reg as)"

text \<open>The body of the \<^verbatim>\<open>try\<close> block.\<close>

definition validate_body :: "schema \<Rightarrow> json \<Rightarrow> py_error + bool" where
  "validate_body reg locator_data =
     (case required_loop locator_data required_fields of
        Inl e \<Rightarrow> Inl e
      | Inr all_present \<Rightarrow>
        if \<not> all_present then Inr False
        else (case py_item locator_data ''primary_locator'' of
          Inl e \<Rightarrow> Inl e
        | Inr primary \<Rightarrow>
         (case py_item primary ''strategy'' of
            Inl e \<Rightarrow> Inl e
          | Inr strategy \<Rightarrow>
            if \<not> in_strs strategy (supported_strategies reg) then Inr False
            else (case py_item locator_data ''element_type'' of
              Inl e \<Rightarrow> Inl e
            | Inr etype \<Rightarrow>
              if \<not> in_strs etype (element_types reg) then Inr False
              else (case str_in ''suggested_actions'' locator_data of
                Inl e \<Rightarrow> Inl e
              | Inr present \<Rightarrow>
                if present
                then (case py_item locator_data ''suggested_actions'' of
                    Inl e \<Rightarrow> Inl e
                  | Inr actions \<Rightarrow>
                     (case py_iter actions of
                        Inl e \<Rightarrow> Inl e
                      | Inr as \<Rightarrow> Inr (actions_loop reg as)))
                else Inr True)))))"

text \<open>\<^verbatim>\<open>except (KeyError, TypeError): return False\<close>; any other exception propagates.\<close>

definition validate_generated_locator :: "schema \<Rightarrow> json \<Rightarrow> py_error + bool" where
  "validate_generated_locator reg locator_data =
     (case validate_body reg locator_data of
        Inl (KeyError k) \<Rightarrow> Inr False
      | Inl TypeError \<Rightarrow> Inr False
      | Inl e \<Rightarrow> Inl e
      | Inr b \<Rightarrow> Inr b)"

section \<open>Confidence (\<^verbatim>\<open>_calculate_confidence\<close>)\<close>

definition strategy_scores :: "(string \<times> real) list" where
  "strategy_scores =
     [(''id'', 0.4), (''accessibility_id'', 0.35), (''class_name'', 0.2),
      (''android_uiautomator'', 0.15), (''xpath'', 0.1), (''name'', 0.1), (''tag_name'', 0.05)]"

text \<open>
  \<^verbatim>\<open>strategy_scores.get(strategy, 0)\<close>: the key is hashed first, which a list or a
  dictionary refuses; a key that is no string equals none of the table's keys.
\<close>

fun scores_get :: "json \<Rightarrow> py_error + real" where
  "scores_get (JStr s) = Inr (case map_of strategy_scores s of None \<Rightarrow> 0 | Some b \<Rightarrow> b)"
| "scores_get (JArr xs) = Inl TypeError"
| "scores_get (JObj kvs) = Inl TypeError"
| "scores_get _ = Inr 0"

text \<open>The second argument, the page source, is not read by the function.\<close>

definition calculate_confidence :: "json \<Rightarrow> string \<Rightarrow> py_error + real" where
  "calculate_confidence locator_data page_source =
     (case py_item locator_data ''primary_locator'' of
        Inl e \<Rightarrow> Inl e
      | Inr primary \<Rightarrow>
       (case py_item primary ''strategy'' of
          Inl e \<Rightarrow> Inl e
        | Inr strategy \<Rightarrow>
         (case scores_get strategy of
            Inl e \<Rightarrow> Inl e
          | Inr bonus \<Rightarrow>
           (case py_get locator_data ''fallback_locators'' (JArr []) of
              Inl e \<Rightarrow> Inl e
            | Inr fallbacks \<Rightarrow>
             (case py_len fallbacks of
                Inl e \<Rightarrow> Inl e
              | Inr fallback_count \<Rightarrow>
               (case py_get locator_data ''accessibility_info'' (JObj []) of
                  Inl e \<Rightarrow> Inl e
                | Inr info \<Rightarrow>
                 (case py_get info ''content_desc'' JNull of
                    Inl e \<Rightarrow> Inl e
                  | Inr desc \<Rightarrow>
                      Inr (min (0.5 + bonus + min (real fallback_count * 0.05) 0.15
                                + (if py_truthy desc then 0.1 else 0)) 1.0))))))))"

text \<open>
  The specification's description of the score: per-strategy bonus, fallback bonus, and the
  clamp to \<open>[0, 1]\<close>.
\<close>

definition strategy_bonus :: "string \<Rightarrow> real" where
  "strategy_bonus s =
     (if s = ''id'' then 0.4 else if s = ''accessibility_id'' then 0.35
      else if s = ''class_name'' then 0.2 else if s = ''android_uiautomator'' then 0.15
      else if s = ''xpath'' then 0.1 else if s = ''name'' then 0.1
      else if s = ''tag_name'' then 0.05 else 0)"

definition clamp01 :: "real \<Rightarrow> real" where
  "clamp01 x = max 0 (min 1 x)"

definition confidence_formula :: "string \<Rightarrow> nat \<Rightarrow> bool \<Rightarrow> real" where
  "confidence_formula strategy fallback_count has_desc =
     clamp01 (0.5 + strategy_bonus strategy + min (0.05 * real fallback_count) 0.15
              + (if has_desc then 0.1 else 0))"

text \<open>
  A locator record as the data model types it, as far as the score reads it: a dictionary
  whose \<open>primary_locator\<close> is a dictionary with a string \<open>strategy\<close>, whose
  \<open>fallback_locators\<close>, when present, is a list, and whose \<open>accessibility_info\<close>, when
  present, is a dictionary of strings. The three functions after it read the strategy, the
  number of fallback locators, and whether a non-empty content description is present.
\<close>

definition locator_record :: "(string \<times> json) list \<Rightarrow> bool" where
  "locator_record kvs =
     ((case map_of kvs ''primary_locator'' of
         Some (JObj p) \<Rightarrow> (case map_of p ''strategy'' of Some (JStr s) \<Rightarrow> True | _ \<Rightarrow> False)
       | _ \<Rightarrow> False)
      \<and> (case map_of kvs ''fallback_locators'' of
            None \<Rightarrow> True | Some (JArr xs) \<Rightarrow> True | Some _ \<Rightarrow> False)
      \<and> (case map_of kvs ''accessibility_info'' of
            None \<Rightarrow> True | Some (JObj info) \<Rightarrow> str_or_absent info ''content_desc''
          | Some _ \<Rightarrow> False))"

definition record_strategy :: "(string \<times> json) list \<Rightarrow> string" where
  "record_strategy kvs =
     (case map_of kvs ''primary_locator'' of Some (JObj p) \<Rightarrow> str_field p ''strategy'' | _ \<Rightarrow> [])"

definition record_fallback_count :: "(string \<times> json) list \<Rightarrow> nat" where
  "record_fallback_count kvs =
     (case map_of kvs ''fallback_locators'' of Some (JArr xs) \<Rightarrow> length xs | _ \<Rightarrow> 0)"

definition record_has_content_desc :: "(string \<times> json) list \<Rightarrow> bool" where
  "record_has_content_desc kvs =
     (case map_of kvs ''accessibility_info'' of
        Some (JObj info) \<Rightarrow> str_field info ''content_desc'' \<noteq> []
      | _ \<Rightarrow> False)"


section \<open>Inference results (\<^verbatim>\<open>analyze_element\<close>, \<^verbatim>\<open>analyze_complete_screen\<close>)\<close>

text \<open>
  The result dataclass. Its fields hold whatever the parsed reply holds under the key;
  nothing converts them.
\<close>

record LocatorAnalysis =
  element_name :: json
  primary_locator :: json
  fallback_locators :: json
  element_type :: json
  suggested_actions :: json
  validation_text :: json
  screen_context :: json
  quality_score :: LocatorQuality
  accessibility_info :: json
  confidence :: real

text \<open>
  \<^verbatim>\<open>analyze_element\<close> from the point where the reply of the service has been extracted
  and parsed: \<open>locator_data\<close> is the value of \<^verbatim>\<open>json.loads(json_text)\<close>. What comes
  before (capturing the page source, building the prompt, calling the service, finding the
  JSON text in the reply) is the work of external collaborators. The \<^verbatim>\<open>except\<close> clause
  around the block logs and re-raises, so an error is returned as it is.
\<close>

definition analyze_element :: "schema \<Rightarrow> string \<Rightarrow> string \<Rightarrow> json \<Rightarrow> py_error + LocatorAnalysis" where
  "analyze_element reg screen_ctx page_source locator_data =
     (case validate_generated_locator reg locator_data of
        Inl e \<Rightarrow> Inl e
      | Inr valid \<Rightarrow>
        if \<not> valid then Inl (ValueError ''Generated locator doesn't match schema requirements'')
        else (case py_item locator_data ''primary_locator'' of
          Inl e \<Rightarrow> Inl e
        | Inr primary \<Rightarrow>
         (case assess_locator_quality primary of
            Inl e \<Rightarrow> Inl e
          | Inr quality \<Rightarrow>
           (case calculate_confidence locator_data page_source of
              Inl e \<Rightarrow> Inl e
            | Inr conf \<Rightarrow>
             (case py_item locator_data ''element_name'' of
                Inl e \<Rightarrow> Inl e
              | Inr name \<Rightarrow>
               (case py_get locator_data ''fallback_locators'' (JArr []) of
                  Inl e \<Rightarrow> Inl e
                | Inr fallbacks \<Rightarrow>
                 (case py_item locator_data ''element_type'' of
                    Inl e \<Rightarrow> Inl e
                  | Inr etype \<Rightarrow>
                   (case py_get locator_data ''suggested_actions'' (JArr []) of
                      Inl e \<Rightarrow> Inl e
                    | Inr actions \<Rightarrow>
                     (case py_get locator_data ''validation_text'' JNull of
                        Inl e \<Rightarrow> Inl e
                      | Inr vtext \<Rightarrow>
                       (case py_get locator_data ''screen_context'' (JStr screen_ctx) of
                          Inl e \<Rightarrow> Inl e
                        | Inr ctx \<Rightarrow>
                         (case py_get locator_data ''accessibility_info'' (JObj []) of
                            Inl e \<Rightarrow> Inl e
                          | Inr info \<Rightarrow>
                              Inr \<lparr>element_name = name, primary_locator = primary,
                                   fallback_locators = fallbacks, element_type = etype,
                                   suggested_actions = actions, validation_text = vtext,
                                   screen_context = ctx, quality_score = quality,
                                   accessibility_info = info, confidence = conf\<rparr>)))))))))))"

text \<open>
  An object inside an f-string: a string stands for itself; for any other object the text
  is what Python's built-in \<^verbatim>\<open>str\<close> prints, taken as the parameter \<open>py_str\<close>.
\<close>

definition py_format :: "(json \<Rightarrow> string) \<Rightarrow> json \<Rightarrow> string" where
  "py_format py_str v = (case v of JStr s \<Rightarrow> s | _ \<Rightarrow> py_str v)"

text \<open>\<^verbatim>\<open>d.items()\<close>: only dictionaries have the method.\<close>

fun py_items :: "json \<Rightarrow> py_error + (string \<times> json) list" where
  "py_items (JObj kvs) = Inr kvs"
| "py_items _ = Inl AttributeError"

text \<open>The body of the loop of \<^verbatim>\<open>analyze_complete_screen\<close> for one element of the reply.\<close>

definition screen_element_analysis ::
  "(json \<Rightarrow> string) \<Rightarrow> string \<Rightarrow> string \<Rightarrow> json \<Rightarrow> py_error + LocatorAnalysis" where
  "screen_element_analysis py_str screen_ctx merged_xml element_data =
     (case py_item element_data ''primary_locator'' of
        Inl e \<Rightarrow> Inl e
      | Inr primary \<Rightarrow>
       (case assess_locator_quality primary of
          Inl e \<Rightarrow> Inl e
        | Inr quality \<Rightarrow>
         (case calculate_confidence element_data merged_xml of
            Inl e \<Rightarrow> Inl e
          | Inr conf \<Rightarrow>
           (case py_item element_data ''element_name'' of
              Inl e \<Rightarrow> Inl e
            | Inr name \<Rightarrow>
             (case py_get element_data ''fallback_locators'' (JArr []) of
                Inl e \<Rightarrow> Inl e
              | Inr fallbacks \<Rightarrow>
               (case py_item element_data ''element_type'' of
                  Inl e \<Rightarrow> Inl e
                | Inr etype \<Rightarrow>
                 (case py_get element_data ''suggested_actions'' (JArr []) of
                    Inl e \<Rightarrow> Inl e
                  | Inr actions \<Rightarrow>
                   (case py_get element_data ''validation_text'' JNull of
                      Inl e \<Rightarrow> Inl e
                    | Inr vtext \<Rightarrow>
                     (case py_get element_data ''scroll_position'' (JStr ''unknown'') of
                        Inl e \<Rightarrow> Inl e
                      | Inr pos \<Rightarrow>
                       (case py_get element_data ''accessibility_info'' (JObj []) of
                          Inl e \<Rightarrow> Inl e
                        | Inr info \<Rightarrow>
                            Inr \<lparr>element_name = name, primary_locator = primary,
                                 fallback_locators = fallbacks, element_type = etype,
                                 suggested_actions = actions, validation_text = vtext,
                                 screen_context =
                                   JStr (screen_ctx @ ''_'' @ py_format py_str pos),
                                 quality_score = quality,
                                 accessibility_info = info, confidence = conf\<rparr>))))))))))"

text \<open>
  The loop over \<^verbatim>\<open>screen_elements.items()\<close>; the first element that raises ends the
  call. The result dictionary is the list of its entries in insertion order.
\<close>

fun screen_elements_loop ::
  "(json \<Rightarrow> string) \<Rightarrow> string \<Rightarrow> string \<Rightarrow> (string \<times> json) list
     \<Rightarrow> py_error + (string \<times> LocatorAnalysis) list" where
  "screen_elements_loop py_str screen_ctx merged_xml [] = Inr []"
| "screen_elements_loop py_str screen_ctx merged_xml (kv # rest) =
     (case screen_element_analysis py_str screen_ctx merged_xml (snd kv) of
        Inl e \<Rightarrow> Inl e
      | Inr analysis \<Rightarrow>
         (case screen_elements_loop py_str screen_ctx merged_xml rest of
            Inl e \<Rightarrow> Inl e
          | Inr analyses \<Rightarrow> Inr ((fst kv, analysis) # analyses)))"

text \<open>
  \<^verbatim>\<open>analyze_complete_screen\<close> from the same point: \<open>screen_data\<close> is the parsed reply.
  The schema is a parameter as for \<^const>\<open>analyze_element\<close>, although the function never
  reads it.
\<close>

definition analyze_complete_screen ::
  "schema \<Rightarrow> (json \<Rightarrow> string) \<Rightarrow> string \<Rightarrow> string \<Rightarrow> json
     \<Rightarrow> py_error + (string \<times> LocatorAnalysis) list" where
  "analyze_complete_screen reg py_str screen_ctx merged_xml screen_data =
     (case py_get screen_data ''screen_elements'' (JObj []) of
        Inl e \<Rightarrow> Inl e
      | Inr screen_elements \<Rightarrow>
         (case py_items screen_elements of
            Inl e \<Rightarrow> Inl e
          | Inr items \<Rightarrow> screen_elements_loop py_str screen_ctx merged_xml items))"

text \<open>
  Modelled from the spec: the schema file \<^verbatim>\<open>locator_schema.json\<close> is not part of the
  sources. The strategies are those of the glossary and the element types those of the
  data model; the prompt template of \<^verbatim>\<open>analyze_element\<close> offers the service the same
  names, and the three actions listed here. This schema is used only where a concrete
  one is needed.
\<close>

definition template_schema :: schema where
  "template_schema =
     \<lparr>supported_strategies =
        [''id'', ''xpath'', ''class_name'', ''accessibility_id'', ''android_uiautomator'',
         ''name'', ''tag_name''],
      supported_actions = [''click'', ''send_keys'', ''verify_text''],
      element_types =
        [''button'', ''text_field'', ''text_view'', ''image'', ''checkbox'', ''radio_button'',
         ''dropdown'', ''list_item'', ''container'']\<rparr>"

section \<open>Element resolution (\<^verbatim>\<open>find_element_safe\<close>)\<close>

text \<open>The five \<^verbatim>\<open>AppiumBy\<close> selectors the resolver maps strategy names to.\<close>

datatype appium_by = ID | XPATH | ACCESSIBILITY_ID | CLASS_NAME | ANDROID_UIAUTOMATOR

text \<open>
  The outcome of a call into the driver: a value; \<^verbatim>\<open>TimeoutException\<close> or
  \<^verbatim>\<open>NoSuchElementException\<close>, the two exceptions the resolver's handler names; or any
  other exception, with its name.
\<close>

datatype 'a driver_result = Returned 'a | TimedOut | NotFound | Raised string

text \<open>
  The UI surface behind the driver: what
  \<^verbatim>\<open>WebDriverWait(driver, t).until(presence_of_element_located((selector, value)))\<close> ends
  with, and what \<^verbatim>\<open>element.is_displayed()\<close> ends with.
\<close>

record 'e driver =
  locate :: "appium_by \<Rightarrow> string \<Rightarrow> int \<Rightarrow> 'e driver_result"
  is_displayed :: "'e \<Rightarrow> bool driver_result"

text \<open>
  The resolver's waits are recorded as it issues them: a trial of a named strategy, or the
  final search by text, each with its selector, its value and its timeout.
\<close>

datatype phase = Trial string | TextFallback

datatype wait_call = WaitCall (phase_of: phase) (by_of: appium_by) (value_of: string) (wait_of: int)

definition DEFAULT_TIMEOUT :: int where
  "DEFAULT_TIMEOUT = 15"

definition strategies :: "(string \<times> appium_by) list" where
  "strategies =
     [(''id'', ID), (''xpath'', XPATH), (''accessibility_id'', ACCESSIBILITY_ID),
      (''class_name'', CLASS_NAME), (''android_uiautomator'', ANDROID_UIAUTOMATOR)]"

text \<open>\<^verbatim>\<open>timeout or self.DEFAULT_TIMEOUT\<close>: an absent and a zero timeout give the default.\<close>

definition effective_timeout :: "int option \<Rightarrow> int" where
  "effective_timeout timeout =
     (case timeout of None \<Rightarrow> DEFAULT_TIMEOUT | Some t \<Rightarrow> if t = 0 then DEFAULT_TIMEOUT else t)"

definition strategy_order :: "string \<Rightarrow> string list" where
  "strategy_order locator_strategy =
     locator_strategy # filter (\<lambda>s. s \<noteq> locator_strategy) (map fst strategies)"

text \<open>
  The timeout \<^verbatim>\<open>timeout // len(strategy_order)\<close> that the resolver hands to each
  strategy trial: floor division of the budget by the number of names in the order.
\<close>

definition per_trial_timeout :: "int option \<Rightarrow> string \<Rightarrow> int" where
  "per_trial_timeout timeout locator_strategy =
     effective_timeout timeout div int (length (strategy_order locator_strategy))"

text \<open>
  The body of the \<^verbatim>\<open>try\<close> block of one trial: the wait, then the test
  \<^verbatim>\<open>element and element.is_displayed()\<close> (an element handle is always true).
  \<open>Returned (Some e)\<close> is the \<^verbatim>\<open>return element\<close>, \<open>Returned None\<close> the end of the block
  without a return; an exception of either call leaves the block.
\<close>

definition trial :: "'e driver \<Rightarrow> appium_by \<Rightarrow> string \<Rightarrow> int \<Rightarrow> 'e option driver_result" where
  "trial d b v w =
     (case locate d b v w of
        Returned e \<Rightarrow>
         (case is_displayed d e of
            Returned shown \<Rightarrow> Returned (if shown then Some e else None)
          | TimedOut \<Rightarrow> TimedOut
          | NotFound \<Rightarrow> NotFound
          | Raised m \<Rightarrow> Raised m)
      | TimedOut \<Rightarrow> TimedOut
      | NotFound \<Rightarrow> NotFound
      | Raised m \<Rightarrow> Raised m)"

text \<open>
  The loop over \<^verbatim>\<open>strategy_order\<close> with the per-trial timeout \<open>w\<close>: a name outside the
  mapping is skipped; an element that is found and displayed ends the loop; the handler
  \<^verbatim>\<open>except (TimeoutException, NoSuchElementException): continue\<close> and the end of the block
  go on to the next name; any other exception leaves the loop and the function.
\<close>

fun try_strategies ::
  "'e driver \<Rightarrow> string \<Rightarrow> int \<Rightarrow> string list \<Rightarrow> (py_error + 'e option) \<times> wait_call list" where
  "try_strategies d v w [] = (Inr None, [])"
| "try_strategies d v w (s # ss) =
     (case map_of strategies s of
        None \<Rightarrow> try_strategies d v w ss
      | Some b \<Rightarrow>
         (case trial d b v w of
            Returned (Some e) \<Rightarrow> (Inr (Some e), [WaitCall (Trial s) b v w])
          | Raised m \<Rightarrow> (Inl (WebDriverException m), [WaitCall (Trial s) b v w])
          | _ \<Rightarrow> (case try_strategies d v w ss of
                      (r, calls) \<Rightarrow> (r, WaitCall (Trial s) b v w # calls))))"

text \<open>The f-string of the final search: the value between two single quotes.\<close>

definition text_xpath :: "string \<Rightarrow> string" where
  "text_xpath locator_value = ''//*[contains(@text, '' @ [CHR 0x27] @ locator_value @ [CHR 0x27] @ '')]''"

definition TEXT_FALLBACK_TIMEOUT :: int where
  "TEXT_FALLBACK_TIMEOUT = 2"

text \<open>
  The result is \<open>Inr None\<close> when there is no driver, \<open>Inr (Some e)\<close> for the element
  found, and \<open>Inl\<close> the exception that leaves the function: one that left the loop, or the
  one raised at the end. The bare \<^verbatim>\<open>except\<close> around the text search swallows every
  exception of that wait. The second component lists the waits issued, in order.
\<close>

definition find_element_safe ::
  "'e driver option \<Rightarrow> string \<Rightarrow> string \<Rightarrow> int option
     \<Rightarrow> (py_error + 'e option) \<times> wait_call list" where
  "find_element_safe drv locator_strategy locator_value timeout =
     (case drv of
        None \<Rightarrow> (Inr None, [])
      | Some d \<Rightarrow>
         (let t = effective_timeout timeout;
              order = strategy_order locator_strategy;
              w = t div int (length order)
          in case try_strategies d locator_value w order of
               (Inl err, calls) \<Rightarrow> (Inl err, calls)
             | (Inr (Some e), calls) \<Rightarrow> (Inr (Some e), calls)
             | (Inr None, calls) \<Rightarrow>
                (let last_call = WaitCall TextFallback XPATH (text_xpath locator_value)
                                   TEXT_FALLBACK_TIMEOUT
                 in case locate d XPATH (text_xpath locator_value) TEXT_FALLBACK_TIMEOUT of
                      Returned e \<Rightarrow> (Inr (Some e), calls @ [last_call])
                    | _ \<Rightarrow> (Inl (NoSuchElementException (''Element not found: '' @ locator_value)),
                            calls @ [last_call]))))"

text \<open>
  How the trial of strategy \<open>s\<close> ends. \<open>Inr (Some e)\<close>: the strategy is mapped, the wait
  ends with an element, and the element is displayed (what the specification calls a
  successful trial). \<open>Inr None\<close>: the trial fails in a way the resolver handles (the
  strategy is not mapped, a timeout, nothing found, or an element that is not displayed).
  \<open>Inl\<close>: the trial raises an exception the resolver does not handle.
\<close>

definition trial_yields :: "'e driver \<Rightarrow> string \<Rightarrow> int \<Rightarrow> string \<Rightarrow> py_error + 'e option" where
  "trial_yields d v w s =
     (case map_of strategies s of
        None \<Rightarrow> Inr None
      | Some b \<Rightarrow>
         (case trial d b v w of
            Returned r \<Rightarrow> Inr r
          | Raised m \<Rightarrow> Inl (WebDriverException m)
          | _ \<Rightarrow> Inr None))"

text \<open>The wait recorded for a trial of strategy \<open>s\<close>, and the waits of a list of names.\<close>

definition trial_call :: "string \<Rightarrow> int \<Rightarrow> string \<Rightarrow> wait_call list" where
  "trial_call v w s =
     (case map_of strategies s of None \<Rightarrow> [] | Some b \<Rightarrow> [WaitCall (Trial s) b v w])"

definition trial_plan :: "string \<Rightarrow> int \<Rightarrow> string list \<Rightarrow> wait_call list" where
  "trial_plan v w order = concat (map (trial_call v w) order)"

text \<open>
  The trial order as the specification words it: the primary strategy, the record's
  fallback strategies in their order, then every other known strategy.
\<close>

definition spec_trial_order :: "string \<Rightarrow> string list \<Rightarrow> string list \<Rightarrow> string list" where
  "spec_trial_order primary fallbacks known =
     primary # fallbacks @ filter (\<lambda>s. s \<notin> set (primary # fallbacks)) known"

text \<open>The timeouts handed to the strategy trials of a run, and to its text fallback.\<close>

definition trial_waits :: "wait_call list \<Rightarrow> int list" where
  "trial_waits calls = map wait_of (filter (\<lambda>c. phase_of c \<noteq> TextFallback) calls)"

definition fallback_waits :: "wait_call list \<Rightarrow> int list" where
  "fallback_waits calls = map wait_of (filter (\<lambda>c. phase_of c = TextFallback) calls)"

text \<open>A surface on which no wait ever finds an element.\<close>

definition blank_surface :: "nat driver" where
  "blank_surface = \<lparr>locate = (\<lambda>b v t. TimedOut), is_displayed = (\<lambda>e. Returned True)\<rparr>"

text \<open>
  A surface on which only the XPath selector with the value \<open>login_btn\<close> finds an element,
  which is displayed.
\<close>

definition xpath_only_surface :: "nat driver" where
  "xpath_only_surface =
     \<lparr>locate = (\<lambda>b v t. if b = XPATH \<and> v = ''login_btn'' then Returned 7 else TimedOut),
      is_displayed = (\<lambda>e. Returned True)\<rparr>"

text \<open>
  A surface on which every wait with the XPath selector raises
  \<^verbatim>\<open>InvalidSelectorException\<close> and every other wait finds a displayed element.
\<close>

definition selector_fault_surface :: "nat driver" where
  "selector_fault_surface =
     \<lparr>locate = (\<lambda>b v t. if b = XPATH then Raised ''InvalidSelectorException'' else Returned 7),
      is_displayed = (\<lambda>e. Returned True)\<rparr>"

section \<open>Properties of the quality assessment\<close>

text \<open>Counting a one-character token counts the character.\<close>

lemma str_count_char: "str_count [c] s = count_list s c"
  by (induction s) auto

text \<open>
  On string entries the function computes the rule table with the doubled slash as the
  disqualifying token and the single slash as the depth token.
\<close>

lemma get_str_field:
  "str_or_absent kvs k \<Longrightarrow> py_get (JObj kvs) k (JStr []) = Inr (JStr (str_field kvs k))"
  by (cases "map_of kvs k")
     (auto simp: str_or_absent_def str_field_def split: json.splits)

lemma assess_on_strings:
  assumes "py_get locator ''strategy'' (JStr []) = Inr (JStr s)"
    and "py_get locator ''value'' (JStr []) = Inr (JStr v)"
  shows "assess_locator_quality locator = Inr (quality_table ''//'' ''/'' s v)"
  unfolding assess_locator_quality_def assms
  by (simp add: elif_def named_without_double_slash_def xpath_slashes_at_most_def
      quality_table_def)

lemma assess_str_fields:
  assumes "str_or_absent kvs ''strategy''" and "str_or_absent kvs ''value''"
  shows "assess_locator_quality (JObj kvs) =
         Inr (quality_table ''//'' ''/'' (str_field kvs ''strategy'') (str_field kvs ''value''))"
  by (rule assess_on_strings) (simp_all only: get_str_field assms)

lemma assess_no_strategy:
  "map_of kvs ''strategy'' = None \<Longrightarrow> assess_locator_quality (JObj kvs) = Inr POOR"
  by (auto simp: assess_locator_quality_def elif_def named_without_double_slash_def
      xpath_slashes_at_most_def)

lemma assess_missing_key:
  "map_of kvs k = None \<Longrightarrow> k = ''strategy'' \<or> k = ''value'' \<Longrightarrow>
   assess_locator_quality (JObj kvs) = assess_locator_quality (JObj ((k, JStr '''') # kvs))"
  by (auto simp: assess_locator_quality_def)

text \<open>
  Claim C3, as the code has it. For every locator candidate (a dictionary with a string
  strategy and a string value, whatever else it holds) the quality is decided by the rule
  table, first match wins: \<open>id\<close> with a non-empty value that does not contain \<open>//\<close>
  is excellent; \<open>accessibility_id\<close> with a non-empty value is excellent;
  \<open>class_name\<close> with a non-empty value that does not contain \<open>//\<close> is good; \<open>xpath\<close>
  with at most 3 occurrences of \<open>/\<close> is good, with at most 6 acceptable; everything else
  is poor. The path depth is the number of \<open>/\<close> characters of the value.
\<close>

theorem assess_quality_rule_table:
  assumes "map_of kvs ''strategy'' = Some (JStr strategy)"
    and "map_of kvs ''value'' = Some (JStr v)"
  shows "assess_locator_quality (JObj kvs) = Inr (quality_table ''//'' ''/'' strategy v)
         \<and> str_count ''/'' v = count_list v CHR ''/''"
proof -
  from assms have "str_or_absent kvs ''strategy''" "str_or_absent kvs ''value''"
    "str_field kvs ''strategy'' = strategy" "str_field kvs ''value'' = v"
    by (simp_all add: str_or_absent_def str_field_def)
  with assess_str_fields [of kvs] show ?thesis
    by (simp add: str_count_char)
qed

text \<open>The theorem at the candidate \<open>id = login_btn\<close> with a timeout entry.\<close>

theorem assess_quality_rule_table_witness:
  "map_of [(''strategy'', JStr ''id''), (''value'', JStr ''login_btn''), (''timeout'', JNum 15)]
      ''strategy'' = Some (JStr ''id'')
   \<and> map_of [(''strategy'', JStr ''id''), (''value'', JStr ''login_btn''), (''timeout'', JNum 15)]
      ''value'' = Some (JStr ''login_btn'')
   \<and> assess_locator_quality
        (JObj [(''strategy'', JStr ''id''), (''value'', JStr ''login_btn''), (''timeout'', JNum 15)])
      = Inr EXCELLENT"
  using assess_quality_rule_table
    [of "[(''strategy'', JStr ''id''), (''value'', JStr ''login_btn''), (''timeout'', JNum 15)]"
        "''id''" "''login_btn''"]
  by (simp add: quality_table_def)

text \<open>
  Claim C3, as stated, uses one path-separator token for the disqualifying test and for the
  depth. With the token \<open>/\<close> the table rates \<open>id = a/b\<close> poor, the code excellent; with
  the token \<open>//\<close> the table rates the XPath \<open>/a/b/c/d\<close> good (depth 0), the code
  acceptable (four slashes).
\<close>

theorem single_token_table_counterexample:
  "assess_locator_quality (JObj [(''strategy'', JStr ''id''), (''value'', JStr ''a/b'')])
     = Inr EXCELLENT
   \<and> quality_table ''/'' ''/'' ''id'' ''a/b'' = POOR
   \<and> assess_locator_quality (JObj [(''strategy'', JStr ''xpath''), (''value'', JStr ''/a/b/c/d'')])
     = Inr ACCEPTABLE
   \<and> quality_table ''//'' ''//'' ''xpath'' ''/a/b/c/d'' = GOOD"
  by (simp add: assess_locator_quality_def elif_def named_without_double_slash_def
      xpath_slashes_at_most_def quality_table_def)

text \<open>
  No choice of one token reconciles the table with the code: whatever the token, the two
  differ on \<open>id = /\<close> or on the XPath \<open>////\<close>.
\<close>

lemma str_count_bound: "tok \<noteq> [] \<Longrightarrow> str_count tok s * length tok \<le> length s"
proof (induction tok s rule: str_count.induct)
  case (1 sub)
  then show ?case by simp
next
  case (2 sub c cs)
  show ?case
  proof (cases "prefix sub (c # cs)")
    case True
    then have len: "length sub \<le> length (c # cs)" by (rule prefix_length_le)
    from 2 True have "str_count sub (drop (length sub) (c # cs)) * length sub
        \<le> length (c # cs) - length sub" by simp
    with len True 2(3) show ?thesis by simp
  next
    case False
    with 2 show ?thesis by simp
  qed
qed

lemma no_single_token:
  "\<exists>s v. assess_locator_quality (JObj [(''strategy'', JStr s), (''value'', JStr v)])
           \<noteq> Inr (quality_table tok tok s v)"
proof (cases "tok = [] \<or> tok = ''/''")
  case True
  then have "quality_table tok tok ''id'' ''/'' = POOR"
    by (auto simp: quality_table_def)
  moreover have "assess_locator_quality (JObj [(''strategy'', JStr ''id''), (''value'', JStr ''/'')])
      = Inr EXCELLENT"
    by (simp add: assess_locator_quality_def elif_def named_without_double_slash_def)
  ultimately show ?thesis by (metis LocatorQuality.distinct(5) sum.inject(2))
next
  case False
  then have ne: "tok \<noteq> []" and ns: "tok \<noteq> ''/''" by simp_all
  have "str_count tok ''////'' \<le> 3"
  proof (cases "length tok = 1")
    case True
    then obtain c where c: "tok = [c]" by (cases tok) simp_all
    with ns have "c \<noteq> CHR ''/''" by simp
    then show ?thesis by (simp add: c str_count_char)
  next
    case False
    with ne have "2 \<le> length tok" by (cases tok) (simp_all add: Suc_le_eq)
    then have "str_count tok ''////'' * 2 \<le> str_count tok ''////'' * length tok" by simp
    also have "\<dots> \<le> length ''////''" using ne by (rule str_count_bound)
    finally show ?thesis by simp
  qed
  then have "quality_table tok tok ''xpath'' ''////'' = GOOD"
    by (simp add: quality_table_def)
  moreover have "assess_locator_quality (JObj [(''strategy'', JStr ''xpath''), (''value'', JStr ''////'')])
      = Inr ACCEPTABLE"
    by (simp add: assess_locator_quality_def elif_def named_without_double_slash_def
        xpath_slashes_at_most_def)
  ultimately show ?thesis by (metis LocatorQuality.distinct(7) sum.inject(2))
qed

text \<open>
  Claim C7. For every pair of XPath candidates, if the first has at most as many \<open>/\<close>
  characters as the second, its tier is at least as high under
  \<open>excellent > good > acceptable > poor\<close>; a depth of at most 3 is good, of at most 6
  acceptable, a greater one poor. The path depth is the number the code computes,
  \<^verbatim>\<open>value.count('/')\<close>.
\<close>

theorem xpath_quality_monotone:
  assumes "map_of c1 ''strategy'' = Some (JStr ''xpath'')"
    and "map_of c1 ''value'' = Some (JStr v1)"
    and "map_of c2 ''strategy'' = Some (JStr ''xpath'')"
    and "map_of c2 ''value'' = Some (JStr v2)"
    and "str_count ''/'' v1 \<le> str_count ''/'' v2"
  shows "\<exists>q1 q2. assess_locator_quality (JObj c1) = Inr q1
           \<and> assess_locator_quality (JObj c2) = Inr q2
           \<and> tier_rank q2 \<le> tier_rank q1
           \<and> q1 = (if str_count ''/'' v1 \<le> 3 then GOOD
                    else if str_count ''/'' v1 \<le> 6 then ACCEPTABLE else POOR)"
proof -
  from assms have f: "str_or_absent c1 ''strategy''" "str_or_absent c1 ''value''"
    "str_field c1 ''strategy'' = ''xpath''" "str_field c1 ''value'' = v1"
    "str_or_absent c2 ''strategy''" "str_or_absent c2 ''value''"
    "str_field c2 ''strategy'' = ''xpath''" "str_field c2 ''value'' = v2"
    by (simp_all add: str_or_absent_def str_field_def)
  have q1: "assess_locator_quality (JObj c1) = Inr (quality_table ''//'' ''/'' ''xpath'' v1)"
    using assess_str_fields [of c1] f by simp
  have q2: "assess_locator_quality (JObj c2) = Inr (quality_table ''//'' ''/'' ''xpath'' v2)"
    using assess_str_fields [of c2] f by simp
  show ?thesis
    using q1 q2 assms(5) by (simp add: quality_table_def)
qed

text \<open>The theorem at the XPaths \<open>//a/b\<close> (depth 3) and \<open>/a/b/c/d/e\<close> (depth 5).\<close>

theorem xpath_quality_monotone_witness:
  "str_count ''/'' ''//a/b'' \<le> str_count ''/'' ''/a/b/c/d/e''
   \<and> assess_locator_quality (JObj [(''strategy'', JStr ''xpath''), (''value'', JStr ''//a/b'')])
       = Inr GOOD
   \<and> assess_locator_quality (JObj [(''strategy'', JStr ''xpath''), (''value'', JStr ''/a/b/c/d/e'')])
       = Inr ACCEPTABLE
   \<and> tier_rank ACCEPTABLE \<le> tier_rank GOOD"
  using xpath_quality_monotone
    [of "[(''strategy'', JStr ''xpath''), (''value'', JStr ''//a/b'')]" "''//a/b''"
        "[(''strategy'', JStr ''xpath''), (''value'', JStr ''/a/b/c/d/e'')]" "''/a/b/c/d/e''"]
  by (simp add: assess_locator_quality_def elif_def named_without_double_slash_def
      xpath_slashes_at_most_def)

text \<open>
  Claim C10, as stated, says that the assessment never raises on any candidate dictionary.
  A value that is no string can raise: with the strategy \<open>xpath\<close> and the value
  \<^verbatim>\<open>None\<close> the call \<^verbatim>\<open>value.count('/')\<close> raises \<open>AttributeError\<close>.
\<close>

theorem assess_non_string_value_counterexample:
  "assess_locator_quality (JObj [(''strategy'', JStr ''xpath''), (''value'', JNull)])
     = Inl AttributeError"
  by (simp add: assess_locator_quality_def elif_def named_without_double_slash_def
      xpath_slashes_at_most_def)

text \<open>
  Claim C10, amended. On every candidate dictionary whose strategy and value entries are
  strings where present (the declared type \<^verbatim>\<open>Dict[str, str]\<close>) the assessment returns a
  tier; a missing strategy or value key is read as the empty string; a candidate with no
  strategy is rated poor; a candidate with strategy \<open>xpath\<close> and an empty or missing value
  is rated good.
\<close>

theorem assess_total_on_string_dicts:
  assumes "str_or_absent kvs ''strategy''" and "str_or_absent kvs ''value''"
  shows "(\<exists>q. assess_locator_quality (JObj kvs) = Inr q)
    \<and> (map_of kvs ''strategy'' = None \<longrightarrow>
         assess_locator_quality (JObj kvs)
           = assess_locator_quality (JObj ((''strategy'', JStr '''') # kvs))
         \<and> assess_locator_quality (JObj kvs) = Inr POOR)
    \<and> (map_of kvs ''value'' = None \<longrightarrow>
         assess_locator_quality (JObj kvs)
           = assess_locator_quality (JObj ((''value'', JStr '''') # kvs)))
    \<and> (map_of kvs ''strategy'' = Some (JStr ''xpath'') \<and> str_field kvs ''value'' = [] \<longrightarrow>
         assess_locator_quality (JObj kvs) = Inr GOOD)"
proof -
  have total: "\<exists>q. assess_locator_quality (JObj kvs) = Inr q"
    using assess_str_fields [OF assms] by simp
  have xp: "map_of kvs ''strategy'' = Some (JStr ''xpath'') \<and> str_field kvs ''value'' = [] \<longrightarrow>
         assess_locator_quality (JObj kvs) = Inr GOOD"
    using assess_str_fields [OF assms] by (simp add: str_field_def quality_table_def)
  show ?thesis
    using total xp assess_no_strategy [of kvs] assess_missing_key [of kvs "''strategy''"]
      assess_missing_key [of kvs "''value''"]
    by simp
qed

text \<open>
  The theorem at the dictionary holding only the strategy \<open>xpath\<close> and at the dictionary
  holding only a value.
\<close>

theorem assess_total_on_string_dicts_witness:
  "str_or_absent [(''strategy'', JStr ''xpath'')] ''strategy''
   \<and> str_or_absent [(''strategy'', JStr ''xpath'')] ''value''
   \<and> map_of [(''strategy'', JStr ''xpath'')] ''value'' = None
   \<and> assess_locator_quality (JObj [(''strategy'', JStr ''xpath'')]) = Inr GOOD
   \<and> str_or_absent [(''value'', JStr ''login_btn'')] ''strategy''
   \<and> str_or_absent [(''value'', JStr ''login_btn'')] ''value''
   \<and> map_of [(''value'', JStr ''login_btn'')] ''strategy'' = None
   \<and> assess_locator_quality (JObj [(''value'', JStr ''login_btn'')]) = Inr POOR"
proof -
  have g: "assess_locator_quality (JObj [(''strategy'', JStr ''xpath'')]) = Inr GOOD"
    using assess_total_on_string_dicts [of "[(''strategy'', JStr ''xpath'')]"]
    by (auto simp: str_or_absent_def str_field_def)
  have p: "assess_locator_quality (JObj [(''value'', JStr ''login_btn'')]) = Inr POOR"
    using assess_total_on_string_dicts [of "[(''value'', JStr ''login_btn'')]"]
    by (auto simp: str_or_absent_def str_field_def)
  show ?thesis
    using g p by (simp add: str_or_absent_def)
qed



section \<open>Properties of the validator\<close>

text \<open>
  The body of the validator raises nothing but \<open>TypeError\<close> and \<open>KeyError\<close>, which the
  handler turns into \<open>False\<close>; on a dictionary its verdict is the conjunction of the four
  rules.
\<close>

lemma required_loop_error: "required_loop d fs = Inl e \<Longrightarrow> e = TypeError"
proof (induction fs)
  case Nil
  then show ?case by simp
next
  case (Cons f fs)
  then show ?case
    by (cases d) (auto split: sum.splits if_splits)
qed

lemma validate_body_error:
  assumes "validate_body reg d = Inl e"
  shows "e = TypeError \<or> (\<exists>k. e = KeyError k)"
proof -
  have item: "\<And>x k e'. py_item x k = Inl e' \<Longrightarrow> e' = TypeError \<or> (\<exists>k. e' = KeyError k)"
    subgoal for x k e' by (cases x) (auto split: option.splits)
    done
  have isin: "\<And>s x e'. str_in s x = Inl e' \<Longrightarrow> e' = TypeError"
    subgoal for s x e' by (cases x) auto
    done
  have iter: "\<And>x e'. py_iter x = Inl e' \<Longrightarrow> e' = TypeError"
    subgoal for x e' by (cases x) auto
    done
  show ?thesis
    using assms required_loop_error [of d required_fields e]
    unfolding validate_body_def
    by (auto split: sum.splits if_splits dest: item isin iter)
qed

lemma validate_never_raises: "\<exists>b. validate_generated_locator reg d = Inr b"
proof (cases "validate_body reg d")
  case (Inl e)
  with validate_body_error [of reg d e] show ?thesis
    by (auto simp: validate_generated_locator_def)
next
  case (Inr b)
  then show ?thesis by (simp add: validate_generated_locator_def)
qed

lemma required_loop_obj:
  "required_loop (JObj kvs) fs = Inr (\<forall>f \<in> set fs. map_of kvs f \<noteq> None)"
  by (induction fs) (auto simp: map_of_eq_None_iff)

lemma actions_loop_all:
  "actions_loop reg as = (\<forall>a \<in> set as. in_strs a (supported_actions reg))"
  by (induction as) auto

lemma py_item_error: "py_item x k = Inl e \<Longrightarrow> e = TypeError \<or> e = KeyError k"
  by (cases x) (auto split: option.splits)

lemma py_iter_error: "py_iter x = Inl e \<Longrightarrow> e = TypeError"
  by (cases x) auto

lemma caught_False:
  "body = Inl e \<Longrightarrow> e = TypeError \<or> e = KeyError k \<Longrightarrow>
   (case body of Inl (KeyError k) \<Rightarrow> Inr False | Inl TypeError \<Rightarrow> Inr False
      | Inl e \<Rightarrow> Inl e | Inr b \<Rightarrow> Inr b) = (Inr False :: py_error + bool)"
  by auto

lemma validate_obj:
  "validate_generated_locator reg (JObj kvs) = Inr
     ((\<forall>f \<in> set required_fields. map_of kvs f \<noteq> None)
      \<and> (\<exists>p s. map_of kvs ''primary_locator'' = Some (JObj p)
             \<and> map_of p ''strategy'' = Some (JStr s) \<and> s \<in> set (supported_strategies reg))
      \<and> (\<exists>t. map_of kvs ''element_type'' = Some (JStr t) \<and> t \<in> set (element_types reg))
      \<and> (\<forall>acts. map_of kvs ''suggested_actions'' = Some acts \<longrightarrow>
            (\<exists>entries. py_iter acts = Inr entries
               \<and> (\<forall>a \<in> set entries. in_strs a (supported_actions reg)))))"
  (is "_ = Inr (?req \<and> ?strat \<and> ?etype \<and> ?acts)")
proof (cases ?req)
  case False
  then show ?thesis
    by (simp add: validate_generated_locator_def validate_body_def required_loop_obj)
next
  case True
  then obtain pl et where pl: "map_of kvs ''primary_locator'' = Some pl"
    and et: "map_of kvs ''element_type'' = Some et"
    by (auto simp: required_fields_def)
  have strat: "?strat = (\<exists>x. py_item pl ''strategy'' = Inr x \<and> in_strs x (supported_strategies reg))"
    unfolding pl by (cases pl) (auto split: option.splits elim: in_strs.elims)
  have etype: "?etype = in_strs et (element_types reg)"
    unfolding et by (cases et) auto
  have sa_in: "(''suggested_actions'' \<in> fst ` set kvs) = (map_of kvs ''suggested_actions'' \<noteq> None)"
    by (simp add: map_of_eq_None_iff)
  define tail where "tail =
    (case map_of kvs ''suggested_actions'' of
       None \<Rightarrow> Inr True
     | Some acts \<Rightarrow> (case py_iter acts of Inl e \<Rightarrow> Inl e
                      | Inr as \<Rightarrow> (Inr (actions_loop reg as) :: py_error + bool)))"
  have body: "validate_body reg (JObj kvs) =
    (case py_item pl ''strategy'' of
       Inl e \<Rightarrow> Inl e
     | Inr strategy \<Rightarrow>
         if \<not> in_strs strategy (supported_strategies reg) then Inr False
         else if \<not> in_strs et (element_types reg) then Inr False else tail)"
    using True
    by (auto simp: validate_body_def required_loop_obj pl et sa_in tail_def
        split: sum.splits option.splits)
  have tail_ok: "(case tail of Inl (KeyError k) \<Rightarrow> Inr False | Inl TypeError \<Rightarrow> Inr False
      | Inl e \<Rightarrow> Inl e | Inr b \<Rightarrow> Inr b) = Inr ?acts"
  proof (cases "map_of kvs ''suggested_actions''")
    case None
    then show ?thesis by (simp add: tail_def)
  next
    case (Some acts)
    show ?thesis
    proof (cases "py_iter acts")
      case (Inl e)
      with py_iter_error [of acts e] Some show ?thesis by (simp add: tail_def)
    next
      case (Inr as)
      with Some show ?thesis by (simp add: tail_def actions_loop_all)
    qed
  qed
  show ?thesis
  proof (cases "py_item pl ''strategy''")
    case (Inl e)
    then have "validate_body reg (JObj kvs) = Inl e" by (simp add: body)
    moreover have "e = TypeError \<or> e = KeyError ''strategy''"
      using Inl by (rule py_item_error)
    ultimately have "validate_generated_locator reg (JObj kvs) = Inr False"
      unfolding validate_generated_locator_def by (rule caught_False)
    moreover have "\<not> ?strat" unfolding strat using Inl by simp
    ultimately show ?thesis by simp
  next
    case (Inr x)
    show ?thesis
    proof (cases "in_strs x (supported_strategies reg) \<and> in_strs et (element_types reg)")
      case False
      then have "validate_body reg (JObj kvs) = Inr False"
        using Inr by (auto simp: body)
      moreover have "\<not> (?strat \<and> ?etype)" unfolding strat etype using False Inr by simp
      ultimately show ?thesis by (auto simp: validate_generated_locator_def)
    next
      case ok: True
      then have "validate_body reg (JObj kvs) = tail"
        using Inr by (simp add: body)
      moreover have "?strat" "?etype" unfolding strat etype using ok Inr by simp_all
      ultimately show ?thesis
        using True tail_ok by (simp add: validate_generated_locator_def)
    qed
  qed
qed


text \<open>
  Claim C6. The validator never raises, whatever value it is given. On a candidate
  dictionary it returns false when \<open>element_name\<close>, \<open>element_type\<close> or
  \<open>primary_locator\<close> is missing, when the strategy of the primary locator is not a
  supported strategy, when the element type is not a known element type, or when
  \<open>suggested_actions\<close> is present with an entry that is not a supported action; it returns
  true when \<open>element_name\<close>, \<open>element_type\<close> and \<open>primary_locator\<close> are present, the
  strategy and the element type are known and \<open>suggested_actions\<close>, if present, holds only
  supported actions, whatever other fields the dictionary has.
\<close>

theorem validate_rejects_and_accepts:
  "(\<exists>b. validate_generated_locator reg d = Inr b)
   \<and> ((map_of kvs ''element_name'' = None \<or> map_of kvs ''element_type'' = None
         \<or> map_of kvs ''primary_locator'' = None) \<longrightarrow>
        validate_generated_locator reg (JObj kvs) = Inr False)
   \<and> ((\<forall>p s. map_of kvs ''primary_locator'' = Some (JObj p)
            \<and> map_of p ''strategy'' = Some (JStr s) \<longrightarrow> s \<notin> set (supported_strategies reg)) \<longrightarrow>
        validate_generated_locator reg (JObj kvs) = Inr False)
   \<and> ((\<forall>t. map_of kvs ''element_type'' = Some (JStr t) \<longrightarrow> t \<notin> set (element_types reg)) \<longrightarrow>
        validate_generated_locator reg (JObj kvs) = Inr False)
   \<and> ((\<exists>acts entries. map_of kvs ''suggested_actions'' = Some acts
            \<and> py_iter acts = Inr entries
            \<and> (\<exists>a \<in> set entries. \<not> in_strs a (supported_actions reg))) \<longrightarrow>
        validate_generated_locator reg (JObj kvs) = Inr False)
   \<and> (map_of kvs ''element_name'' \<noteq> None \<and> map_of kvs ''element_type'' \<noteq> None
        \<and> map_of kvs ''primary_locator'' \<noteq> None
        \<and> (\<exists>p s. map_of kvs ''primary_locator'' = Some (JObj p)
               \<and> map_of p ''strategy'' = Some (JStr s) \<and> s \<in> set (supported_strategies reg))
        \<and> (\<exists>t. map_of kvs ''element_type'' = Some (JStr t) \<and> t \<in> set (element_types reg))
        \<and> (\<forall>acts. map_of kvs ''suggested_actions'' = Some acts \<longrightarrow>
              (\<exists>entries. py_iter acts = Inr entries
                 \<and> (\<forall>a \<in> set entries. in_strs a (supported_actions reg)))) \<longrightarrow>
        validate_generated_locator reg (JObj kvs) = Inr True)"
proof -
  have total: "\<exists>b. validate_generated_locator reg d = Inr b"
    by (rule validate_never_raises)
  have fields: "(\<forall>f \<in> set required_fields. map_of kvs f \<noteq> None)
      = (map_of kvs ''element_name'' \<noteq> None \<and> map_of kvs ''element_type'' \<noteq> None
         \<and> map_of kvs ''primary_locator'' \<noteq> None)"
    by (simp add: required_fields_def)
  have rest: "((map_of kvs ''element_name'' = None \<or> map_of kvs ''element_type'' = None
         \<or> map_of kvs ''primary_locator'' = None) \<longrightarrow>
        validate_generated_locator reg (JObj kvs) = Inr False)
   \<and> ((\<forall>p s. map_of kvs ''primary_locator'' = Some (JObj p)
            \<and> map_of p ''strategy'' = Some (JStr s) \<longrightarrow> s \<notin> set (supported_strategies reg)) \<longrightarrow>
        validate_generated_locator reg (JObj kvs) = Inr False)
   \<and> ((\<forall>t. map_of kvs ''element_type'' = Some (JStr t) \<longrightarrow> t \<notin> set (element_types reg)) \<longrightarrow>
        validate_generated_locator reg (JObj kvs) = Inr False)
   \<and> ((\<exists>acts entries. map_of kvs ''suggested_actions'' = Some acts
            \<and> py_iter acts = Inr entries
            \<and> (\<exists>a \<in> set entries. \<not> in_strs a (supported_actions reg))) \<longrightarrow>
        validate_generated_locator reg (JObj kvs) = Inr False)
   \<and> (map_of kvs ''element_name'' \<noteq> None \<and> map_of kvs ''element_type'' \<noteq> None
        \<and> map_of kvs ''primary_locator'' \<noteq> None
        \<and> (\<exists>p s. map_of kvs ''primary_locator'' = Some (JObj p)
               \<and> map_of p ''strategy'' = Some (JStr s) \<and> s \<in> set (supported_strategies reg))
        \<and> (\<exists>t. map_of kvs ''element_type'' = Some (JStr t) \<and> t \<in> set (element_types reg))
        \<and> (\<forall>acts. map_of kvs ''suggested_actions'' = Some acts \<longrightarrow>
              (\<exists>entries. py_iter acts = Inr entries
                 \<and> (\<forall>a \<in> set entries. in_strs a (supported_actions reg)))) \<longrightarrow>
        validate_generated_locator reg (JObj kvs) = Inr True)"
    unfolding validate_obj fields by fastforce
  from total rest show ?thesis by (rule conjI)
qed

text \<open>
  The theorem under the template's enumerations. A complete candidate with an extra field
  is accepted. A candidate that lacks only \<open>element_name\<close>, one that lacks only
  \<open>element_type\<close> and one that lacks only \<open>primary_locator\<close> are rejected, and so are one
  with the strategy \<open>css\<close>, one with the element type \<open>widget\<close> and one with the action
  \<open>tap\<close>.
\<close>

theorem validate_rejects_and_accepts_witness:
  "validate_generated_locator template_schema
     (JObj [(''element_name'', JStr ''login_button''), (''element_type'', JStr ''button''),
            (''primary_locator'', JObj [(''strategy'', JStr ''id''), (''value'', JStr ''login_btn'')]),
            (''suggested_actions'', JArr [JStr ''click'']),
            (''description'', JStr ''the login button'')]) = Inr True
   \<and> validate_generated_locator template_schema
     (JObj [(''element_type'', JStr ''button''),
            (''primary_locator'', JObj [(''strategy'', JStr ''id''), (''value'', JStr ''login_btn'')])]) = Inr False
   \<and> validate_generated_locator template_schema
     (JObj [(''element_name'', JStr ''login_button''),
            (''primary_locator'', JObj [(''strategy'', JStr ''id''), (''value'', JStr ''login_btn'')])]) = Inr False
   \<and> validate_generated_locator template_schema
     (JObj [(''element_name'', JStr ''login_button''), (''element_type'', JStr ''button'')]) = Inr False
   \<and> validate_generated_locator template_schema
     (JObj [(''element_name'', JStr ''login_button''), (''element_type'', JStr ''button''),
            (''primary_locator'', JObj [(''strategy'', JStr ''css''), (''value'', JStr ''#login'')])]) = Inr False
   \<and> validate_generated_locator template_schema
     (JObj [(''element_name'', JStr ''login_button''), (''element_type'', JStr ''widget''),
            (''primary_locator'', JObj [(''strategy'', JStr ''id''), (''value'', JStr ''login_btn'')])]) = Inr False
   \<and> validate_generated_locator template_schema
     (JObj [(''element_name'', JStr ''login_button''), (''element_type'', JStr ''button''),
            (''primary_locator'', JObj [(''strategy'', JStr ''id''), (''value'', JStr ''login_btn'')]),
            (''suggested_actions'', JArr [JStr ''click'', JStr ''tap''])]) = Inr False"
proof -
  note inst = validate_rejects_and_accepts [where reg = template_schema and d = JNull]
  have a: "validate_generated_locator template_schema
     (JObj [(''element_name'', JStr ''login_button''), (''element_type'', JStr ''button''),
            (''primary_locator'', JObj [(''strategy'', JStr ''id''), (''value'', JStr ''login_btn'')]),
            (''suggested_actions'', JArr [JStr ''click'']),
            (''description'', JStr ''the login button'')]) = Inr True"
    using inst [where kvs = "[(''element_name'', JStr ''login_button''), (''element_type'', JStr ''button''),
            (''primary_locator'', JObj [(''strategy'', JStr ''id''), (''value'', JStr ''login_btn'')]),
            (''suggested_actions'', JArr [JStr ''click'']),
            (''description'', JStr ''the login button'')]"]
    by (simp add: template_schema_def)
  have b: "validate_generated_locator template_schema
     (JObj [(''element_type'', JStr ''button''),
            (''primary_locator'', JObj [(''strategy'', JStr ''id''), (''value'', JStr ''login_btn'')])]) = Inr False"
    using inst [where kvs = "[(''element_type'', JStr ''button''),
            (''primary_locator'', JObj [(''strategy'', JStr ''id''), (''value'', JStr ''login_btn'')])]"]
    by (simp add: template_schema_def)
  have c: "validate_generated_locator template_schema
     (JObj [(''element_name'', JStr ''login_button''),
            (''primary_locator'', JObj [(''strategy'', JStr ''id''), (''value'', JStr ''login_btn'')])]) = Inr False"
    using inst [where kvs = "[(''element_name'', JStr ''login_button''),
            (''primary_locator'', JObj [(''strategy'', JStr ''id''), (''value'', JStr ''login_btn'')])]"]
    by (simp add: template_schema_def)
  have d: "validate_generated_locator template_schema
     (JObj [(''element_name'', JStr ''login_button''), (''element_type'', JStr ''button'')]) = Inr False"
    using inst [where kvs = "[(''element_name'', JStr ''login_button''), (''element_type'', JStr ''button'')]"]
    by (simp add: template_schema_def)
  have e: "validate_generated_locator template_schema
     (JObj [(''element_name'', JStr ''login_button''), (''element_type'', JStr ''button''),
            (''primary_locator'', JObj [(''strategy'', JStr ''css''), (''value'', JStr ''#login'')])]) = Inr False"
    using inst [where kvs = "[(''element_name'', JStr ''login_button''), (''element_type'', JStr ''button''),
            (''primary_locator'', JObj [(''strategy'', JStr ''css''), (''value'', JStr ''#login'')])]"]
    by (simp add: template_schema_def)
  have f: "validate_generated_locator template_schema
     (JObj [(''element_name'', JStr ''login_button''), (''element_type'', JStr ''widget''),
            (''primary_locator'', JObj [(''strategy'', JStr ''id''), (''value'', JStr ''login_btn'')])]) = Inr False"
    using inst [where kvs = "[(''element_name'', JStr ''login_button''), (''element_type'', JStr ''widget''),
            (''primary_locator'', JObj [(''strategy'', JStr ''id''), (''value'', JStr ''login_btn'')])]"]
    by (simp add: template_schema_def)
  have g: "validate_generated_locator template_schema
     (JObj [(''element_name'', JStr ''login_button''), (''element_type'', JStr ''button''),
            (''primary_locator'', JObj [(''strategy'', JStr ''id''), (''value'', JStr ''login_btn'')]),
            (''suggested_actions'', JArr [JStr ''click'', JStr ''tap''])]) = Inr False"
    using inst [where kvs = "[(''element_name'', JStr ''login_button''), (''element_type'', JStr ''button''),
            (''primary_locator'', JObj [(''strategy'', JStr ''id''), (''value'', JStr ''login_btn'')]),
            (''suggested_actions'', JArr [JStr ''click'', JStr ''tap''])]"]
    by (simp add: template_schema_def)
  from a b c d e f g show ?thesis by (intro conjI)
qed

section \<open>Properties of the confidence score\<close>

text \<open>
  The table lookup is the bonus of the specification, every bonus is non-negative, and
  the lower clamp of the formula never acts.
\<close>

lemma strategy_bonus_table:
  "(case map_of strategy_scores s of None \<Rightarrow> 0 | Some b \<Rightarrow> b) = strategy_bonus s"
  by (simp add: strategy_scores_def strategy_bonus_def)

lemma strategy_bonus_range: "0 \<le> strategy_bonus s \<and> strategy_bonus s \<le> 0.4"
  by (simp add: strategy_bonus_def)

lemma scores_get_nonneg: "scores_get x = Inr b \<Longrightarrow> 0 \<le> b"
  using strategy_bonus_range by (cases x) (auto simp: strategy_bonus_table)

lemma confidence_formula_unclamped:
  "confidence_formula s n h =
     min (0.5 + strategy_bonus s + min (real n * 0.05) 0.15 + (if h then 0.1 else 0)) 1"
proof -
  have "0 \<le> strategy_bonus s" using strategy_bonus_range [of s] by simp
  moreover have "0 \<le> min (real n * 0.05) 0.15" by simp
  ultimately have "0 \<le> 0.5 + strategy_bonus s + min (real n * 0.05) 0.15 + (if h then 0.1 else 0)"
    by simp
  then show ?thesis
    by (simp add: confidence_formula_def clamp01_def mult.commute)
qed

lemma confidence_formula_range:
  "1 / 2 \<le> confidence_formula s n h \<and> confidence_formula s n h \<le> 1"
proof -
  have "0 \<le> strategy_bonus s" using strategy_bonus_range [of s] by simp
  moreover have "0 \<le> min (real n * 0.05) 0.15" by simp
  ultimately have "1 / 2 \<le> 0.5 + strategy_bonus s + min (real n * 0.05) 0.15 + (if h then 0.1 else 0)"
    by simp
  then show ?thesis
    unfolding confidence_formula_unclamped by simp
qed

text \<open>Whatever the function returns was computed by the final \<^verbatim>\<open>min\<close>.\<close>

lemma calculate_confidence_shape:
  assumes "calculate_confidence d ps = Inr c"
  shows "\<exists>x bonus n h. scores_get x = Inr bonus
           \<and> c = min (0.5 + bonus + min (real n * 0.05) 0.15 + (if h then 0.1 else 0)) 1"
proof -
  from assms obtain primary where "py_item d ''primary_locator'' = Inr primary"
    by (cases "py_item d ''primary_locator''") (simp_all add: calculate_confidence_def)
  note a = this
  from assms a obtain strategy where "py_item primary ''strategy'' = Inr strategy"
    by (cases "py_item primary ''strategy''") (simp_all add: calculate_confidence_def)
  note b = this
  from assms a b obtain bonus where "scores_get strategy = Inr bonus"
    by (cases "scores_get strategy") (simp_all add: calculate_confidence_def)
  note c = this
  from assms a b c obtain fl where "py_get d ''fallback_locators'' (JArr []) = Inr fl"
    by (cases "py_get d ''fallback_locators'' (JArr [])") (simp_all add: calculate_confidence_def)
  note e = this
  from assms a b c e obtain n where "py_len fl = Inr n"
    by (cases "py_len fl") (simp_all add: calculate_confidence_def)
  note f = this
  from assms a b c e f obtain ai where "py_get d ''accessibility_info'' (JObj []) = Inr ai"
    by (cases "py_get d ''accessibility_info'' (JObj [])") (simp_all add: calculate_confidence_def)
  note g = this
  from assms a b c e f g obtain desc where "py_get ai ''content_desc'' JNull = Inr desc"
    by (cases "py_get ai ''content_desc'' JNull") (simp_all add: calculate_confidence_def)
  note h = this
  from assms have "c = min (0.5 + bonus + min (real n * 0.05) 0.15
                       + (if py_truthy desc then 0.1 else 0)) 1"
    by (simp add: calculate_confidence_def a b c e f g h)
  with c show ?thesis by blast
qed

lemma calculate_confidence_range:
  assumes "calculate_confidence d ps = Inr c"
  shows "1 / 2 \<le> c \<and> c \<le> 1"
proof -
  from calculate_confidence_shape [OF assms] obtain x bonus n h
    where s: "scores_get x = Inr bonus"
      and c: "c = min (0.5 + bonus + min (real n * 0.05) 0.15 + (if h then 0.1 else 0)) 1"
    by blast
  have "0 \<le> bonus" using s by (rule scores_get_nonneg)
  moreover have "0 \<le> min (real n * 0.05) 0.15" by simp
  ultimately have "1 / 2 \<le> 0.5 + bonus + min (real n * 0.05) 0.15 + (if h then 0.1 else 0)"
    by simp
  then show ?thesis unfolding c by simp
qed

text \<open>On a well-typed record every read of the function succeeds.\<close>

lemma record_fallbacks_len:
  assumes "locator_record kvs"
  shows "\<exists>fl. py_get (JObj kvs) ''fallback_locators'' (JArr []) = Inr fl
           \<and> py_len fl = Inr (record_fallback_count kvs)"
proof (cases "map_of kvs ''fallback_locators''")
  case None
  then show ?thesis by (simp add: record_fallback_count_def)
next
  case (Some fl)
  with assms obtain xs where "fl = JArr xs"
    by (cases fl) (simp_all add: locator_record_def)
  with Some show ?thesis by (simp add: record_fallback_count_def)
qed

lemma record_content_desc:
  assumes "locator_record kvs"
  shows "\<exists>ai desc. py_get (JObj kvs) ''accessibility_info'' (JObj []) = Inr ai
           \<and> py_get ai ''content_desc'' JNull = Inr desc
           \<and> py_truthy desc = record_has_content_desc kvs"
proof (cases "map_of kvs ''accessibility_info''")
  case None
  then show ?thesis by (simp add: record_has_content_desc_def)
next
  case (Some ai)
  with assms obtain info where ai: "ai = JObj info" and sa: "str_or_absent info ''content_desc''"
    by (cases ai) (simp_all add: locator_record_def)
  show ?thesis
  proof (cases "map_of info ''content_desc''")
    case None
    with Some ai show ?thesis by (simp add: record_has_content_desc_def str_field_def)
  next
    case (Some desc)
    with sa obtain t where "desc = JStr t"
      by (cases desc) (simp_all add: str_or_absent_def)
    with Some \<open>map_of kvs ''accessibility_info'' = Some ai\<close> ai show ?thesis
      by (simp add: record_has_content_desc_def str_field_def)
  qed
qed

lemma record_primary_strategy:
  assumes "locator_record kvs"
  shows "\<exists>p. py_item (JObj kvs) ''primary_locator'' = Inr p
           \<and> py_item p ''strategy'' = Inr (JStr (record_strategy kvs))"
proof -
  from assms obtain pl where pl: "map_of kvs ''primary_locator'' = Some pl"
    by (cases "map_of kvs ''primary_locator''") (simp_all add: locator_record_def)
  with assms obtain p where p: "pl = JObj p"
    by (cases pl) (simp_all add: locator_record_def)
  from assms pl p obtain sv where sv: "map_of p ''strategy'' = Some sv"
    by (cases "map_of p ''strategy''") (simp_all add: locator_record_def)
  with assms pl p obtain s where "sv = JStr s"
    by (cases sv) (simp_all add: locator_record_def)
  with pl p sv show ?thesis
    by (simp add: record_strategy_def str_field_def)
qed

lemma confidence_steps:
  assumes "py_item d ''primary_locator'' = Inr p"
    and "py_item p ''strategy'' = Inr (JStr s)"
    and "py_get d ''fallback_locators'' (JArr []) = Inr fl"
    and "py_len fl = Inr n"
    and "py_get d ''accessibility_info'' (JObj []) = Inr ai"
    and "py_get ai ''content_desc'' JNull = Inr desc"
  shows "calculate_confidence d ps = Inr (confidence_formula s n (py_truthy desc))"
  by (simp add: calculate_confidence_def assms strategy_bonus_table
      confidence_formula_unclamped)

lemma confidence_of_record:
  assumes "locator_record kvs"
  shows "calculate_confidence (JObj kvs) ps =
         Inr (confidence_formula (record_strategy kvs) (record_fallback_count kvs)
                (record_has_content_desc kvs))"
proof -
  from record_primary_strategy [OF assms] obtain p
    where a: "py_item (JObj kvs) ''primary_locator'' = Inr p"
      and b: "py_item p ''strategy'' = Inr (JStr (record_strategy kvs))" by blast
  from record_fallbacks_len [OF assms] obtain fl
    where c: "py_get (JObj kvs) ''fallback_locators'' (JArr []) = Inr fl"
      and d: "py_len fl = Inr (record_fallback_count kvs)" by blast
  from record_content_desc [OF assms] obtain ai desc
    where e: "py_get (JObj kvs) ''accessibility_info'' (JObj []) = Inr ai"
      and f: "py_get ai ''content_desc'' JNull = Inr desc"
      and g: "py_truthy desc = record_has_content_desc kvs" by blast
  show ?thesis
    using confidence_steps [OF a b c d e f] unfolding g .
qed

lemma unknown_strategy_bonus:
  "s \<notin> fst ` set strategy_scores \<Longrightarrow> strategy_bonus s = 0"
  by (simp add: strategy_scores_def strategy_bonus_def)

text \<open>
  Claim C4. For every locator record the confidence is the base 0.5 plus the bonus of the
  strategy (\<open>id\<close> 0.4, \<open>accessibility_id\<close> 0.35, \<open>class_name\<close> 0.2,
  \<open>android_uiautomator\<close> 0.15, \<open>xpath\<close> 0.1, \<open>name\<close> 0.1, \<open>tag_name\<close> 0.05, any
  other strategy 0), plus the smaller of 0.05 times the number of fallback locators and
  0.15, plus 0.1 when the accessibility information has a non-empty content description,
  clamped to \<open>[0, 1]\<close>; the value lies in \<open>[0, 1]\<close> for every strategy, every number of
  fallback locators and either state of the content description. The arithmetic is exact;
  the rounding of Python's floats is not modelled.
\<close>

theorem confidence_matches_formula:
  assumes "locator_record kvs"
  shows "calculate_confidence (JObj kvs) ps =
           Inr (confidence_formula (record_strategy kvs) (record_fallback_count kvs)
                  (record_has_content_desc kvs))
         \<and> 0 \<le> confidence_formula s n h \<and> confidence_formula s n h \<le> 1"
  using confidence_of_record [OF assms, of ps] confidence_formula_range [of s n h]
  by simp

text \<open>
  The theorem at a record with strategy \<open>id\<close>, four fallback locators and a content
  description: the sum 1.15 is clamped to 1.
\<close>

theorem confidence_matches_formula_witness:
  "locator_record
     [(''primary_locator'', JObj [(''strategy'', JStr ''id''), (''value'', JStr ''login_btn'')]),
      (''fallback_locators'', JArr [JNull, JNull, JNull, JNull]),
      (''accessibility_info'', JObj [(''content_desc'', JStr ''Login'')])]
   \<and> calculate_confidence (JObj
     [(''primary_locator'', JObj [(''strategy'', JStr ''id''), (''value'', JStr ''login_btn'')]),
      (''fallback_locators'', JArr [JNull, JNull, JNull, JNull]),
      (''accessibility_info'', JObj [(''content_desc'', JStr ''Login'')])]) ''<hierarchy/>''
       = Inr 1"
proof -
  let ?kvs = "[(''primary_locator'', JObj [(''strategy'', JStr ''id''), (''value'', JStr ''login_btn'')]),
      (''fallback_locators'', JArr [JNull, JNull, JNull, JNull]),
      (''accessibility_info'', JObj [(''content_desc'', JStr ''Login'')])]"
  have r: "locator_record ?kvs"
    by (simp add: locator_record_def str_or_absent_def)
  have s: "record_strategy ?kvs = ''id''"
    by (simp add: record_strategy_def str_field_def)
  have n: "record_fallback_count ?kvs = 4"
    by (simp add: record_fallback_count_def)
  have h: "record_has_content_desc ?kvs"
    by (simp add: record_has_content_desc_def str_field_def)
  have f: "confidence_formula ''id'' 4 True = 1"
    by (simp add: confidence_formula_def clamp01_def strategy_bonus_def)
  have "calculate_confidence (JObj ?kvs) ''<hierarchy/>'' = Inr 1"
    using confidence_matches_formula [OF r, of "''<hierarchy/>''"] unfolding s n
    by (simp only: h f)
  with r show ?thesis by (rule conjI)
qed

text \<open>
  Claim C9. For every locator record with a strategy the confidence is computed and lies
  between the base 0.5 and 1; whatever dictionary the function is given, a value it
  returns lies in that range; a record with a strategy outside the table, no fallback
  locators and no content description scores exactly 0.5.
\<close>

theorem confidence_at_least_base:
  "(locator_record kvs \<longrightarrow>
      (\<exists>c. calculate_confidence (JObj kvs) ps = Inr c \<and> 1 / 2 \<le> c \<and> c \<le> 1))
   \<and> (calculate_confidence d ps = Inr c' \<longrightarrow> 1 / 2 \<le> c' \<and> c' \<le> 1)
   \<and> (locator_record kvs \<and> record_strategy kvs \<notin> fst ` set strategy_scores
        \<and> record_fallback_count kvs = 0 \<and> \<not> record_has_content_desc kvs \<longrightarrow>
      calculate_confidence (JObj kvs) ps = Inr (1 / 2))"
proof (intro conjI impI)
  assume "locator_record kvs"
  then show "\<exists>c. calculate_confidence (JObj kvs) ps = Inr c \<and> 1 / 2 \<le> c \<and> c \<le> 1"
    using confidence_of_record [of kvs ps] confidence_formula_range by simp
next
  assume "calculate_confidence d ps = Inr c'"
  then show "1 / 2 \<le> c'" "c' \<le> 1"
    using calculate_confidence_range by blast+
next
  assume a: "locator_record kvs \<and> record_strategy kvs \<notin> fst ` set strategy_scores
        \<and> record_fallback_count kvs = 0 \<and> \<not> record_has_content_desc kvs"
  then have "confidence_formula (record_strategy kvs) (record_fallback_count kvs)
                  (record_has_content_desc kvs) = 1 / 2"
    by (simp add: confidence_formula_def clamp01_def unknown_strategy_bonus)
  with a show "calculate_confidence (JObj kvs) ps = Inr (1 / 2)"
    using confidence_of_record [of kvs ps] by simp
qed

text \<open>The theorem at a record whose only entry is a primary locator of strategy \<open>css\<close>.\<close>

theorem confidence_at_least_base_witness:
  "locator_record [(''primary_locator'', JObj [(''strategy'', JStr ''css''), (''value'', JStr ''#go'')])]
   \<and> calculate_confidence
        (JObj [(''primary_locator'', JObj [(''strategy'', JStr ''css''), (''value'', JStr ''#go'')])])
        ''<hierarchy/>'' = Inr (1 / 2)"
  using confidence_at_least_base
    [of "[(''primary_locator'', JObj [(''strategy'', JStr ''css''), (''value'', JStr ''#go'')])]"
        "''<hierarchy/>''" JNull 0]
  by (simp add: locator_record_def str_or_absent_def record_strategy_def
      record_fallback_count_def record_has_content_desc_def str_field_def strategy_scores_def)



section \<open>Properties of the inference results\<close>

text \<open>
  The single-element analysis returns a record only for a candidate the validator
  accepted, and fails with the \<open>ValueError\<close> of the schema mismatch for one it rejected.
\<close>

lemma analyze_element_validated:
  assumes "analyze_element reg ctx ps d = Inr a"
  shows "validate_generated_locator reg d = Inr True"
proof (cases "validate_generated_locator reg d")
  case (Inl e)
  with assms show ?thesis by (simp add: analyze_element_def)
next
  case (Inr valid)
  with assms show ?thesis by (cases valid) (simp_all add: analyze_element_def)
qed

lemma analyze_element_rejects:
  "validate_generated_locator reg d = Inr False \<Longrightarrow>
   analyze_element reg ctx ps d
     = Inl (ValueError ''Generated locator doesn't match schema requirements'')"
  by (simp add: analyze_element_def)

text \<open>
  Claim C5 asks that both analyses pass the parsed reply through the validator before a
  record is produced. The whole-screen analysis never calls the validator. For the reply
  \<^verbatim>\<open>{"screen_elements": {"submit": {"element_name": "submit", "element_type": "button",
  "primary_locator": {"strategy": "css_selector", "value": "#submit"},
  "scroll_position": "top"}}}\<close> the element is one the validator rejects (its strategy is
  not a supported strategy) and the single-element analysis refuses; the whole-screen
  analysis returns a record for it.
\<close>

theorem complete_screen_skips_validation:
  "validate_generated_locator template_schema
     (JObj [(''element_name'', JStr ''submit''), (''element_type'', JStr ''button''),
            (''primary_locator'', JObj [(''strategy'', JStr ''css_selector''), (''value'', JStr ''#submit'')]),
            (''scroll_position'', JStr ''top'')]) = Inr False
   \<and> analyze_element template_schema ''checkout'' ''<hierarchy/>''
     (JObj [(''element_name'', JStr ''submit''), (''element_type'', JStr ''button''),
            (''primary_locator'', JObj [(''strategy'', JStr ''css_selector''), (''value'', JStr ''#submit'')]),
            (''scroll_position'', JStr ''top'')])
       = Inl (ValueError ''Generated locator doesn't match schema requirements'')
   \<and> analyze_complete_screen template_schema py_str ''checkout'' ''<hierarchy/>''
     (JObj [(''screen_elements'', JObj [(''submit'',
        JObj [(''element_name'', JStr ''submit''), (''element_type'', JStr ''button''),
              (''primary_locator'', JObj [(''strategy'', JStr ''css_selector''), (''value'', JStr ''#submit'')]),
              (''scroll_position'', JStr ''top'')])])])
       = Inr [(''submit'',
           \<lparr>element_name = JStr ''submit'',
            primary_locator = JObj [(''strategy'', JStr ''css_selector''), (''value'', JStr ''#submit'')],
            fallback_locators = JArr [], element_type = JStr ''button'',
            suggested_actions = JArr [], validation_text = JNull,
            screen_context = JStr ''checkout_top'', quality_score = POOR,
            accessibility_info = JObj [], confidence = 1 / 2\<rparr>)]"
proof -
  let ?elem = "JObj [(''element_name'', JStr ''submit''), (''element_type'', JStr ''button''),
            (''primary_locator'', JObj [(''strategy'', JStr ''css_selector''), (''value'', JStr ''#submit'')]),
            (''scroll_position'', JStr ''top'')]"
  have v: "validate_generated_locator template_schema ?elem = Inr False"
    by (simp add: validate_generated_locator_def validate_body_def required_fields_def
        template_schema_def)
  have q: "assess_locator_quality
      (JObj [(''strategy'', JStr ''css_selector''), (''value'', JStr ''#submit'')]) = Inr POOR"
    by (simp add: assess_locator_quality_def elif_def named_without_double_slash_def
        xpath_slashes_at_most_def)
  have c: "calculate_confidence ?elem ''<hierarchy/>'' = Inr (1 / 2)"
    by (simp add: calculate_confidence_def strategy_scores_def)
  have s: "screen_element_analysis py_str ''checkout'' ''<hierarchy/>'' ?elem =
      Inr \<lparr>element_name = JStr ''submit'',
            primary_locator = JObj [(''strategy'', JStr ''css_selector''), (''value'', JStr ''#submit'')],
            fallback_locators = JArr [], element_type = JStr ''button'',
            suggested_actions = JArr [], validation_text = JNull,
            screen_context = JStr ''checkout_top'', quality_score = POOR,
            accessibility_info = JObj [], confidence = 1 / 2\<rparr>"
    unfolding screen_element_analysis_def
    by (simp add: q c py_format_def)
  show ?thesis
    by (simp add: v analyze_element_rejects analyze_complete_screen_def s)
qed

section \<open>Properties of the element resolution\<close>

text \<open>
  The loop over the strategy order, one name at a time: a trial that yields an element or
  raises ends the loop with its outcome; a trial that fails in a handled way adds its
  wait (if the name is mapped) and the loop goes on.
\<close>

lemma try_strategies_step:
  "try_strategies d v w (s # ss) =
     (if trial_yields d v w s = Inr None
      then (fst (try_strategies d v w ss), trial_call v w s @ snd (try_strategies d v w ss))
      else (trial_yields d v w s, trial_call v w s))"
proof (cases "map_of strategies s")
  case None
  then show ?thesis by (simp add: trial_yields_def trial_call_def)
next
  case (Some b)
  show ?thesis
  proof (cases "trial d b v w")
    case (Returned r)
    with Some show ?thesis
      by (cases r) (simp_all add: trial_yields_def trial_call_def split: prod.splits)
  next
    case TimedOut
    with Some show ?thesis
      by (simp add: trial_yields_def trial_call_def split: prod.splits)
  next
    case NotFound
    with Some show ?thesis
      by (simp add: trial_yields_def trial_call_def split: prod.splits)
  next
    case (Raised m)
    with Some show ?thesis
      by (simp add: trial_yields_def trial_call_def)
  qed
qed

lemma trial_plan_Nil: "trial_plan v w [] = []"
  by (simp add: trial_plan_def)

lemma trial_plan_Cons: "trial_plan v w (s # ss) = trial_call v w s @ trial_plan v w ss"
  by (simp add: trial_plan_def)

lemma try_strategies_none:
  "(fst (try_strategies d v w ss) = Inr None) = (\<forall>s \<in> set ss. trial_yields d v w s = Inr None)"
proof (induction ss)
  case Nil
  show ?case by simp
next
  case (Cons s ss)
  then show ?case
    by (simp add: try_strategies_step del: try_strategies.simps)
qed

lemma try_strategies_error:
  "fst (try_strategies d v w ss) = Inl err \<Longrightarrow> \<exists>s \<in> set ss. trial_yields d v w s = Inl err"
proof (induction ss)
  case Nil
  then show ?case by simp
next
  case (Cons s ss)
  then show ?case
    by (cases "trial_yields d v w s = Inr None")
       (simp_all add: try_strategies_step del: try_strategies.simps)
qed

lemma try_strategies_prefix:
  "prefix (snd (try_strategies d v w ss)) (trial_plan v w ss)"
proof (induction ss)
  case Nil
  show ?case by (simp add: trial_plan_Nil)
next
  case (Cons s ss)
  then show ?case
    by (simp add: try_strategies_step trial_plan_Cons del: try_strategies.simps)
qed

lemma try_strategies_first:
  assumes "\<forall>t \<in> set pre. trial_yields d v w t = Inr None"
    and "trial_yields d v w s \<noteq> Inr None"
  shows "try_strategies d v w (pre @ s # post)
           = (trial_yields d v w s, trial_plan v w (pre @ [s]))"
  using assms(1)
proof (induction pre)
  case Nil
  show ?case
    using assms(2)
    by (simp add: try_strategies_step trial_plan_Cons trial_plan_Nil del: try_strategies.simps)
next
  case (Cons t pre)
  then show ?case
    by (simp add: try_strategies_step trial_plan_Cons del: try_strategies.simps)
qed

lemma trial_plan_calls:
  "c \<in> set (trial_plan v w ss) \<Longrightarrow> phase_of c \<noteq> TextFallback \<and> wait_of c = w"
  by (auto simp: trial_plan_def trial_call_def split: option.splits)

lemma trial_plan_length: "length (trial_plan v w ss) \<le> length ss"
  by (induction ss) (auto simp: trial_plan_Nil trial_plan_Cons trial_call_def split: option.splits)

lemma trial_plan_order:
  "trial_plan v w (strategy_order primary) =
     map (\<lambda>(s, b). WaitCall (Trial s) b v w)
       (case map_of strategies primary of
          None \<Rightarrow> strategies
        | Some b \<Rightarrow> (primary, b) # filter (\<lambda>(s, b). s \<noteq> primary) strategies)"
  by (simp add: trial_plan_def trial_call_def strategy_order_def strategies_def)

text \<open>The resolver with a driver, in terms of the run of the loop.\<close>

lemma find_element_safe_driver:
  "find_element_safe (Some d) p v timeout =
     (let run = try_strategies d v (per_trial_timeout timeout p) (strategy_order p);
          last_call = WaitCall TextFallback XPATH (text_xpath v) TEXT_FALLBACK_TIMEOUT
      in case fst run of
           Inl err \<Rightarrow> (Inl err, snd run)
         | Inr (Some e) \<Rightarrow> (Inr (Some e), snd run)
         | Inr None \<Rightarrow>
            (case locate d XPATH (text_xpath v) TEXT_FALLBACK_TIMEOUT of
               Returned e \<Rightarrow> (Inr (Some e), snd run @ [last_call])
             | _ \<Rightarrow> (Inl (NoSuchElementException (''Element not found: '' @ v)),
                     snd run @ [last_call])))"
proof -
  obtain r calls where run:
    "try_strategies d v (effective_timeout timeout div int (length (strategy_order p)))
       (strategy_order p) = (r, calls)"
    by (cases "try_strategies d v (effective_timeout timeout div int (length (strategy_order p)))
       (strategy_order p)")
  show ?thesis
  proof (cases r)
    case (Inl err)
    then show ?thesis
      by (simp add: find_element_safe_def Let_def run per_trial_timeout_def)
  next
    case (Inr found)
    then show ?thesis
      by (cases found)
         (simp_all add: find_element_safe_def Let_def run per_trial_timeout_def
            split: driver_result.splits)
  qed
qed

lemma find_element_safe_calls:
  "snd (find_element_safe (Some d) p v timeout) =
     snd (try_strategies d v (per_trial_timeout timeout p) (strategy_order p))
     @ (if fst (try_strategies d v (per_trial_timeout timeout p) (strategy_order p)) = Inr None
        then [WaitCall TextFallback XPATH (text_xpath v) TEXT_FALLBACK_TIMEOUT] else [])"
  by (cases "locate d XPATH (text_xpath v) TEXT_FALLBACK_TIMEOUT")
     (simp_all add: find_element_safe_driver Let_def split: sum.splits option.splits)

lemma filter_trial_prefix:
  assumes "prefix xs (trial_plan v w ss)"
  shows "filter (\<lambda>c. phase_of c \<noteq> TextFallback) xs = xs"
    and "filter (\<lambda>c. phase_of c = TextFallback) xs = []"
proof -
  from assms have "set xs \<subseteq> set (trial_plan v w ss)" by (rule set_mono_prefix)
  then have "\<forall>c \<in> set xs. phase_of c \<noteq> TextFallback"
    using trial_plan_calls by blast
  then show "filter (\<lambda>c. phase_of c \<noteq> TextFallback) xs = xs"
    and "filter (\<lambda>c. phase_of c = TextFallback) xs = []"
    by (simp_all add: filter_empty_conv)
qed

lemma find_element_safe_trials:
  "filter (\<lambda>c. phase_of c \<noteq> TextFallback) (snd (find_element_safe (Some d) p v timeout))
     = snd (try_strategies d v (per_trial_timeout timeout p) (strategy_order p))"
  unfolding find_element_safe_calls filter_append
  by (simp add: filter_trial_prefix(1) [OF try_strategies_prefix])

lemma find_element_safe_fallbacks:
  "filter (\<lambda>c. phase_of c = TextFallback) (snd (find_element_safe (Some d) p v timeout))
     = (if fst (try_strategies d v (per_trial_timeout timeout p) (strategy_order p)) = Inr None
        then [WaitCall TextFallback XPATH (text_xpath v) TEXT_FALLBACK_TIMEOUT] else [])"
  unfolding find_element_safe_calls filter_append
  by (simp add: filter_trial_prefix(2) [OF try_strategies_prefix])

text \<open>
  Claim C1, as the code has it. With a driver, the strategy trials are, in order: the
  primary strategy first if it is one of the five mapped strategies, then every other
  mapped strategy in the fixed order \<open>id\<close>, \<open>xpath\<close>, \<open>accessibility_id\<close>,
  \<open>class_name\<close>, \<open>android_uiautomator\<close>; a primary strategy outside the mapping has no
  trial; every trial carries the caller's value and the same timeout. The trials issued
  are an initial part of that plan, and when the trials before it fail in a handled way,
  the first trial that finds a displayed element ends the resolution with that element as
  its result, without any later trial. The resolver takes no fallback locators of a
  record.
\<close>

theorem resolution_trial_order:
  "trial_plan v w (strategy_order primary) =
     map (\<lambda>(s, b). WaitCall (Trial s) b v w)
       (case map_of strategies primary of
          None \<Rightarrow> strategies
        | Some b \<Rightarrow> (primary, b) # filter (\<lambda>(s, b). s \<noteq> primary) strategies)
   \<and> prefix (filter (\<lambda>c. phase_of c \<noteq> TextFallback)
               (snd (find_element_safe (Some d) primary v timeout)))
            (trial_plan v (per_trial_timeout timeout primary) (strategy_order primary))
   \<and> (strategy_order primary = pre @ s # post
        \<and> (\<forall>t \<in> set pre. trial_yields d v (per_trial_timeout timeout primary) t = Inr None)
        \<and> trial_yields d v (per_trial_timeout timeout primary) s = Inr (Some e) \<longrightarrow>
      find_element_safe (Some d) primary v timeout
        = (Inr (Some e), trial_plan v (per_trial_timeout timeout primary) (pre @ [s])))"
proof (intro conjI impI)
  show "trial_plan v w (strategy_order primary) =
     map (\<lambda>(s, b). WaitCall (Trial s) b v w)
       (case map_of strategies primary of
          None \<Rightarrow> strategies
        | Some b \<Rightarrow> (primary, b) # filter (\<lambda>(s, b). s \<noteq> primary) strategies)"
    by (rule trial_plan_order)
next
  show "prefix (filter (\<lambda>c. phase_of c \<noteq> TextFallback)
               (snd (find_element_safe (Some d) primary v timeout)))
            (trial_plan v (per_trial_timeout timeout primary) (strategy_order primary))"
    unfolding find_element_safe_trials by (rule try_strategies_prefix)
next
  assume a: "strategy_order primary = pre @ s # post
        \<and> (\<forall>t \<in> set pre. trial_yields d v (per_trial_timeout timeout primary) t = Inr None)
        \<and> trial_yields d v (per_trial_timeout timeout primary) s = Inr (Some e)"
  then have "try_strategies d v (per_trial_timeout timeout primary) (strategy_order primary)
      = (Inr (Some e), trial_plan v (per_trial_timeout timeout primary) (pre @ [s]))"
    using try_strategies_first [of pre d v "per_trial_timeout timeout primary" s post]
    by simp
  then show "find_element_safe (Some d) primary v timeout
        = (Inr (Some e), trial_plan v (per_trial_timeout timeout primary) (pre @ [s]))"
    by (simp add: find_element_safe_driver Let_def)
qed

text \<open>
  The theorem on the surface where only the XPath selector finds a displayed element, with
  the primary strategy \<open>id\<close>: the \<open>id\<close> trial fails, the \<open>xpath\<close> trial returns the
  element.
\<close>

theorem resolution_trial_order_witness:
  "strategy_order ''id''
     = [''id''] @ ''xpath'' # [''accessibility_id'', ''class_name'', ''android_uiautomator'']
   \<and> trial_yields xpath_only_surface ''login_btn'' (per_trial_timeout None ''id'') ''id''
       = Inr None
   \<and> trial_yields xpath_only_surface ''login_btn'' (per_trial_timeout None ''id'') ''xpath''
       = Inr (Some 7)
   \<and> find_element_safe (Some xpath_only_surface) ''id'' ''login_btn'' None
       = (Inr (Some 7),
          [WaitCall (Trial ''id'') ID ''login_btn'' 3,
           WaitCall (Trial ''xpath'') XPATH ''login_btn'' 3])"
proof -
  have w: "per_trial_timeout None ''id'' = 3"
    by (simp add: per_trial_timeout_def effective_timeout_def DEFAULT_TIMEOUT_def
        strategy_order_def strategies_def)
  have order: "strategy_order ''id''
     = [''id''] @ ''xpath'' # [''accessibility_id'', ''class_name'', ''android_uiautomator'']"
    by (simp add: strategy_order_def strategies_def)
  have miss: "trial_yields xpath_only_surface ''login_btn'' (per_trial_timeout None ''id'') ''id''
       = Inr None"
    by (simp add: trial_yields_def trial_def xpath_only_surface_def strategies_def)
  have hit: "trial_yields xpath_only_surface ''login_btn'' (per_trial_timeout None ''id'') ''xpath''
       = Inr (Some 7)"
    by (simp add: trial_yields_def trial_def xpath_only_surface_def strategies_def)
  have plan: "trial_plan ''login_btn'' 3 ([''id''] @ [''xpath''])
      = [WaitCall (Trial ''id'') ID ''login_btn'' 3,
         WaitCall (Trial ''xpath'') XPATH ''login_btn'' 3]"
    by (simp add: trial_plan_def trial_call_def strategies_def)
  have "find_element_safe (Some xpath_only_surface) ''id'' ''login_btn'' None
       = (Inr (Some 7), trial_plan ''login_btn'' (per_trial_timeout None ''id'')
                          ([''id''] @ [''xpath'']))"
    using resolution_trial_order
      [where primary = "''id''" and v = "''login_btn''" and d = xpath_only_surface
         and timeout = None and pre = "[''id'']" and s = "''xpath''"
         and post = "[''accessibility_id'', ''class_name'', ''android_uiautomator'']"
         and e = 7 and w = 3]
      order miss hit
    by simp
  then have "find_element_safe (Some xpath_only_surface) ''id'' ''login_btn'' None
       = (Inr (Some 7),
          [WaitCall (Trial ''id'') ID ''login_btn'' 3,
           WaitCall (Trial ''xpath'') XPATH ''login_btn'' 3])"
    unfolding w plan .
  with order miss hit show ?thesis by (intro conjI)
qed

text \<open>
  Claim C1, as stated, puts the primary strategy first. For the primary strategy \<open>name\<close>
  (a strategy of the schema that the resolver does not map) on a surface without any
  element, the trials are those of the five mapped strategies; none is a trial of
  \<open>name\<close>, so the order is not the stated one even without fallback locators.
\<close>

theorem unmapped_primary_counterexample:
  "map phase_of (snd (find_element_safe (Some blank_surface) ''name'' ''Login'' None))
     = [Trial ''id'', Trial ''xpath'', Trial ''accessibility_id'', Trial ''class_name'',
        Trial ''android_uiautomator'', TextFallback]
   \<and> map Trial (spec_trial_order ''name'' [] (map fst strategies))
     = [Trial ''name'', Trial ''id'', Trial ''xpath'', Trial ''accessibility_id'',
        Trial ''class_name'', Trial ''android_uiautomator'']
   \<and> filter (\<lambda>c. c \<noteq> TextFallback)
         (map phase_of (snd (find_element_safe (Some blank_surface) ''name'' ''Login'' None)))
       \<noteq> map Trial (spec_trial_order ''name'' [] (map fst strategies))"
  by (simp add: find_element_safe_def blank_surface_def strategy_order_def strategies_def
      spec_trial_order_def trial_def Let_def)

text \<open>
  The budget is never exceeded by the number of names times the per-trial timeout; the
  timeouts of the strategy trials of a run are all the per-trial timeout, and there are
  at most as many as names.
\<close>

lemma strategy_order_length: "0 < length (strategy_order p)"
  by (simp add: strategy_order_def)

lemma budget_division:
  "int (length (strategy_order p)) * per_trial_timeout timeout p \<le> effective_timeout timeout"
proof -
  have "0 < int (length (strategy_order p))" using strategy_order_length [of p] by simp
  then have "0 \<le> effective_timeout timeout mod int (length (strategy_order p))"
    by simp
  moreover have "int (length (strategy_order p)) * per_trial_timeout timeout p
      = effective_timeout timeout - effective_timeout timeout mod int (length (strategy_order p))"
    by (simp add: per_trial_timeout_def minus_mod_eq_mult_div)
  ultimately show ?thesis by simp
qed

lemma budget_division_real:
  "real_of_int (per_trial_timeout timeout p)
     \<le> real_of_int (effective_timeout timeout) / real (length (strategy_order p))"
proof -
  have n: "0 < real (length (strategy_order p))" using strategy_order_length [of p] by simp
  have "real_of_int (int (length (strategy_order p)) * per_trial_timeout timeout p)
          \<le> real_of_int (effective_timeout timeout)"
    using budget_division [of p timeout] by (simp only: of_int_le_iff)
  then have "real_of_int (per_trial_timeout timeout p) * real (length (strategy_order p))
          \<le> real_of_int (effective_timeout timeout)"
    by (simp add: mult.commute)
  then show ?thesis using n by (simp add: pos_le_divide_eq)
qed

lemma trial_waits_of_run:
  "trial_waits (snd (find_element_safe (Some d) p v timeout))
     = map wait_of (snd (try_strategies d v (per_trial_timeout timeout p) (strategy_order p)))"
  by (simp add: trial_waits_def find_element_safe_trials)

lemma trial_waits_facts:
  "(\<forall>w \<in> set (trial_waits (snd (find_element_safe drv p v timeout))). w = per_trial_timeout timeout p)
   \<and> length (trial_waits (snd (find_element_safe drv p v timeout))) \<le> length (strategy_order p)"
proof (cases drv)
  case None
  then show ?thesis by (simp add: find_element_safe_def trial_waits_def)
next
  case (Some d)
  let ?run = "snd (try_strategies d v (per_trial_timeout timeout p) (strategy_order p))"
  let ?plan = "trial_plan v (per_trial_timeout timeout p) (strategy_order p)"
  have pre: "prefix ?run ?plan" by (rule try_strategies_prefix)
  then have "set ?run \<subseteq> set ?plan" by (rule set_mono_prefix)
  then have w: "\<forall>c \<in> set ?run. wait_of c = per_trial_timeout timeout p"
    using trial_plan_calls by blast
  have "length ?run \<le> length ?plan" using pre by (rule prefix_length_le)
  also have "\<dots> \<le> length (strategy_order p)" by (rule trial_plan_length)
  finally have "length ?run \<le> length (strategy_order p)" .
  with w show ?thesis
    unfolding Some trial_waits_of_run by simp
qed

lemma sum_list_constant: "\<forall>x \<in> set xs. x = (c::int) \<Longrightarrow> sum_list xs = int (length xs) * c"
  by (induction xs) (simp_all add: algebra_simps)

text \<open>
  Claim C2. With \<open>B\<close> the timeout budget of the call (the caller's timeout; the default 15
  when it is absent or zero) and \<open>N\<close> the number of names in the strategy order, every
  strategy trial waits \<open>B div N\<close>, which is at most \<open>B / N\<close>; at most \<open>N\<close> trials are
  made; \<open>N\<close> such waits never exceed \<open>B\<close>, and for a non-negative budget the waits of the
  trials made sum to at most \<open>B\<close>. The text fallback waits its own fixed timeout.
\<close>

theorem per_strategy_waits_within_budget:
  "(\<forall>w \<in> set (trial_waits (snd (find_element_safe drv p v timeout))).
        w = per_trial_timeout timeout p
        \<and> real_of_int w
            \<le> real_of_int (effective_timeout timeout) / real (length (strategy_order p)))
   \<and> length (trial_waits (snd (find_element_safe drv p v timeout))) \<le> length (strategy_order p)
   \<and> int (length (strategy_order p)) * per_trial_timeout timeout p \<le> effective_timeout timeout
   \<and> (0 \<le> effective_timeout timeout \<longrightarrow>
        sum_list (trial_waits (snd (find_element_safe drv p v timeout)))
          \<le> effective_timeout timeout)
   \<and> (\<forall>w \<in> set (fallback_waits (snd (find_element_safe drv p v timeout))).
        w = TEXT_FALLBACK_TIMEOUT)
   \<and> (timeout = Some t \<and> t \<noteq> 0 \<longrightarrow> effective_timeout timeout = t)"
proof -
  let ?ws = "trial_waits (snd (find_element_safe drv p v timeout))"
  let ?W = "per_trial_timeout timeout p"
  let ?N = "length (strategy_order p)"
  let ?B = "effective_timeout timeout"
  have all: "\<forall>w \<in> set ?ws. w = ?W" and len: "length ?ws \<le> ?N"
    using trial_waits_facts [of drv p v timeout] by simp_all
  have each: "\<forall>w \<in> set ?ws. w = ?W \<and> real_of_int w \<le> real_of_int ?B / real ?N"
  proof
    fix w assume "w \<in> set ?ws"
    with all have "w = ?W" by (rule bspec)
    then show "w = ?W \<and> real_of_int w \<le> real_of_int ?B / real ?N"
      using budget_division_real [of timeout p] by simp
  qed
  have total: "0 \<le> ?B \<longrightarrow> sum_list ?ws \<le> ?B"
  proof
    assume "0 \<le> ?B"
    then have "0 \<le> ?W"
      using strategy_order_length [of p]
      by (simp add: per_trial_timeout_def pos_imp_zdiv_nonneg_iff)
    then have "int (length ?ws) * ?W \<le> int ?N * ?W"
      using len by (simp add: mult_right_mono)
    also have "\<dots> \<le> ?B" by (rule budget_division)
    finally show "sum_list ?ws \<le> ?B"
      using sum_list_constant [OF all] by simp
  qed
  have fb: "\<forall>w \<in> set (fallback_waits (snd (find_element_safe drv p v timeout))).
        w = TEXT_FALLBACK_TIMEOUT"
  proof (cases drv)
    case None
    then show ?thesis by (simp add: find_element_safe_def fallback_waits_def)
  next
    case (Some d)
    show ?thesis
      unfolding Some fallback_waits_def find_element_safe_fallbacks by simp
  qed
  have eff: "timeout = Some t \<and> t \<noteq> 0 \<longrightarrow> ?B = t"
    by (simp add: effective_timeout_def)
  from each len budget_division [of p timeout] total fb eff show ?thesis
    by (intro conjI)
qed

text \<open>
  The theorem for the budget 10 on a surface without any element: five trials of 2
  seconds each, and the text fallback with its own 2 seconds.
\<close>

theorem per_strategy_waits_within_budget_witness:
  "0 \<le> effective_timeout (Some 10)
   \<and> trial_waits (snd (find_element_safe (Some blank_surface) ''id'' ''Login'' (Some 10)))
       = [2, 2, 2, 2, 2]
   \<and> sum_list (trial_waits (snd (find_element_safe (Some blank_surface) ''id'' ''Login'' (Some 10))))
       \<le> 10
   \<and> fallback_waits (snd (find_element_safe (Some blank_surface) ''id'' ''Login'' (Some 10)))
       = [2]"
proof -
  have e: "effective_timeout (Some 10) = 10"
    by (simp add: effective_timeout_def)
  have ws: "trial_waits (snd (find_element_safe (Some blank_surface) ''id'' ''Login'' (Some 10)))
       = [2, 2, 2, 2, 2]"
    by (simp add: find_element_safe_def blank_surface_def strategy_order_def strategies_def
        effective_timeout_def trial_waits_def trial_def Let_def)
  have fw: "fallback_waits (snd (find_element_safe (Some blank_surface) ''id'' ''Login'' (Some 10)))
       = [2]"
    by (simp add: find_element_safe_def blank_surface_def strategy_order_def strategies_def
        effective_timeout_def fallback_waits_def TEXT_FALLBACK_TIMEOUT_def trial_def Let_def)
  have "sum_list (trial_waits (snd (find_element_safe (Some blank_surface) ''id'' ''Login'' (Some 10))))
       \<le> effective_timeout (Some 10)"
    using per_strategy_waits_within_budget
      [where drv = "Some blank_surface" and p = "''id''" and v = "''Login''"
         and timeout = "Some 10" and t = 10]
      e
    by simp
  with e ws fw show ?thesis by simp
qed

text \<open>
  Claim C8, amended. With a driver, the resolution fails with the exception
  \<open>NoSuchElementException\<close> whose message is \<open>Element not found: \<close> followed by the
  caller's value exactly when every strategy trial fails in a way the resolver handles
  (the strategy is not mapped, a timeout, nothing found, or an element that is not
  displayed) and the text search returns no element. A trial that raises any other
  exception, after trials that failed in a handled way, ends the call with that exception,
  with no later trial and no text search. These are the only failures of the resolver.
  Without a driver the call returns no element and does not fail.
\<close>

theorem resolution_exhausted:
  "((fst (find_element_safe (Some d) p v timeout)
       = Inl (NoSuchElementException (''Element not found: '' @ v)))
     = ((\<forall>s \<in> set (strategy_order p). trial_yields d v (per_trial_timeout timeout p) s = Inr None)
        \<and> (\<forall>e. locate d XPATH (text_xpath v) TEXT_FALLBACK_TIMEOUT \<noteq> Returned e)))
   \<and> (strategy_order p = pre @ s # post
        \<and> (\<forall>t \<in> set pre. trial_yields d v (per_trial_timeout timeout p) t = Inr None)
        \<and> trial_yields d v (per_trial_timeout timeout p) s = Inl err \<longrightarrow>
      find_element_safe (Some d) p v timeout
        = (Inl err, trial_plan v (per_trial_timeout timeout p) (pre @ [s])))
   \<and> (fst (find_element_safe drv p v timeout) = Inl err' \<longrightarrow>
        drv \<noteq> None
        \<and> (err' = NoSuchElementException (''Element not found: '' @ v)
            \<or> (\<exists>d' s'. drv = Some d' \<and> s' \<in> set (strategy_order p)
                  \<and> trial_yields d' v (per_trial_timeout timeout p) s' = Inl err')))
   \<and> find_element_safe None p v timeout = (Inr None, [])"
proof (intro conjI impI)
  show "(fst (find_element_safe (Some d) p v timeout)
       = Inl (NoSuchElementException (''Element not found: '' @ v)))
     = ((\<forall>s \<in> set (strategy_order p). trial_yields d v (per_trial_timeout timeout p) s = Inr None)
        \<and> (\<forall>e. locate d XPATH (text_xpath v) TEXT_FALLBACK_TIMEOUT \<noteq> Returned e))"
  proof (cases "fst (try_strategies d v (per_trial_timeout timeout p) (strategy_order p))")
    case (Inl e1)
    then obtain s1 where "s1 \<in> set (strategy_order p)"
      and s1: "trial_yields d v (per_trial_timeout timeout p) s1 = Inl e1"
      using try_strategies_error by blast
    then obtain m where "e1 = WebDriverException m"
      by (auto simp: trial_yields_def split: option.splits driver_result.splits)
    with Inl have "fst (find_element_safe (Some d) p v timeout)
        \<noteq> Inl (NoSuchElementException (''Element not found: '' @ v))"
      by (simp add: find_element_safe_driver Let_def)
    moreover have "\<not> (\<forall>s \<in> set (strategy_order p).
        trial_yields d v (per_trial_timeout timeout p) s = Inr None)"
    proof -
      from s1 have "trial_yields d v (per_trial_timeout timeout p) s1 \<noteq> Inr None" by simp
      with \<open>s1 \<in> set (strategy_order p)\<close> show ?thesis by blast
    qed
    ultimately show ?thesis by simp
  next
    case (Inr found)
    show ?thesis
    proof (cases found)
      case None
      with Inr have run: "fst (try_strategies d v (per_trial_timeout timeout p) (strategy_order p))
          = Inr None" by simp
      then have "\<forall>s \<in> set (strategy_order p).
          trial_yields d v (per_trial_timeout timeout p) s = Inr None"
        by (simp add: try_strategies_none)
      then show ?thesis
        using run
        by (cases "locate d XPATH (text_xpath v) TEXT_FALLBACK_TIMEOUT")
           (simp_all add: find_element_safe_driver Let_def)
    next
      case (Some e1)
      with Inr have run: "fst (try_strategies d v (per_trial_timeout timeout p) (strategy_order p))
          = Inr (Some e1)" by simp
      then have "\<not> (\<forall>s \<in> set (strategy_order p).
          trial_yields d v (per_trial_timeout timeout p) s = Inr None)"
        using try_strategies_none [of d v "per_trial_timeout timeout p" "strategy_order p"]
        by simp
      then show ?thesis
        using run by (simp add: find_element_safe_driver Let_def)
    qed
  qed
next
  assume a: "strategy_order p = pre @ s # post
        \<and> (\<forall>t \<in> set pre. trial_yields d v (per_trial_timeout timeout p) t = Inr None)
        \<and> trial_yields d v (per_trial_timeout timeout p) s = Inl err"
  then have "try_strategies d v (per_trial_timeout timeout p) (strategy_order p)
      = (Inl err, trial_plan v (per_trial_timeout timeout p) (pre @ [s]))"
    using try_strategies_first [of pre d v "per_trial_timeout timeout p" s post]
    by simp
  then show "find_element_safe (Some d) p v timeout
        = (Inl err, trial_plan v (per_trial_timeout timeout p) (pre @ [s]))"
    by (simp add: find_element_safe_driver Let_def)
next
  assume f: "fst (find_element_safe drv p v timeout) = Inl err'"
  then show "drv \<noteq> None" by (cases drv) (simp_all add: find_element_safe_def)
  then obtain d' where drv: "drv = Some d'" by blast
  show "err' = NoSuchElementException (''Element not found: '' @ v)
      \<or> (\<exists>d' s'. drv = Some d' \<and> s' \<in> set (strategy_order p)
            \<and> trial_yields d' v (per_trial_timeout timeout p) s' = Inl err')"
  proof (cases "fst (try_strategies d' v (per_trial_timeout timeout p) (strategy_order p))")
    case (Inl e1)
    with f drv have "e1 = err'" by (simp add: find_element_safe_driver Let_def)
    with Inl drv show ?thesis using try_strategies_error by blast
  next
    case (Inr found)
    with f drv have "err' = NoSuchElementException (''Element not found: '' @ v)"
      by (cases found; cases "locate d' XPATH (text_xpath v) TEXT_FALLBACK_TIMEOUT")
         (simp_all add: find_element_safe_driver Let_def)
    then show ?thesis by simp
  qed
next
  show "find_element_safe None p v timeout = (Inr None, [])"
    by (simp add: find_element_safe_def)
qed

text \<open>
  The theorem on the surface without any element, for the value \<open>Login\<close>, and on the
  surface whose XPath waits raise, with the primary strategy \<open>xpath\<close>.
\<close>

theorem resolution_exhausted_witness:
  "map (trial_yields blank_surface ''Login'' (per_trial_timeout None ''id''))
       (strategy_order ''id'') = [Inr None, Inr None, Inr None, Inr None, Inr None]
   \<and> locate blank_surface XPATH (text_xpath ''Login'') TEXT_FALLBACK_TIMEOUT = TimedOut
   \<and> fst (find_element_safe (Some blank_surface) ''id'' ''Login'' None)
       = Inl (NoSuchElementException ''Element not found: Login'')
   \<and> strategy_order ''xpath''
       = [] @ ''xpath'' # [''id'', ''accessibility_id'', ''class_name'', ''android_uiautomator'']
   \<and> trial_yields selector_fault_surface ''Login'' (per_trial_timeout None ''xpath'') ''xpath''
       = Inl (WebDriverException ''InvalidSelectorException'')
   \<and> find_element_safe (Some selector_fault_surface) ''xpath'' ''Login'' None
       = (Inl (WebDriverException ''InvalidSelectorException''),
          [WaitCall (Trial ''xpath'') XPATH ''Login'' 3])"
proof -
  have a: "\<forall>s \<in> set (strategy_order ''id'').
       trial_yields blank_surface ''Login'' (per_trial_timeout None ''id'') s = Inr None"
    by (simp add: trial_yields_def trial_def blank_surface_def split: option.splits)
  have b: "\<forall>e. locate blank_surface XPATH (text_xpath ''Login'') TEXT_FALLBACK_TIMEOUT \<noteq> Returned e"
    by (simp add: blank_surface_def)
  have "fst (find_element_safe (Some blank_surface) ''id'' ''Login'' None)
       = Inl (NoSuchElementException (''Element not found: '' @ ''Login''))"
    using resolution_exhausted
      [where d = blank_surface and p = "''id''" and v = "''Login''" and timeout = None
         and drv = None and err = TypeError and err' = TypeError and pre = "[]" and s = "[]"
         and post = "[]"]
      a b
    by blast
  then have exhausted: "fst (find_element_safe (Some blank_surface) ''id'' ''Login'' None)
       = Inl (NoSuchElementException ''Element not found: Login'')"
    by simp
  have yields: "map (trial_yields blank_surface ''Login'' (per_trial_timeout None ''id''))
       (strategy_order ''id'') = [Inr None, Inr None, Inr None, Inr None, Inr None]"
    by (simp add: trial_yields_def trial_def blank_surface_def strategy_order_def strategies_def)
  have fb: "locate blank_surface XPATH (text_xpath ''Login'') TEXT_FALLBACK_TIMEOUT = TimedOut"
    by (simp add: blank_surface_def)
  have w: "per_trial_timeout None ''xpath'' = 3"
    by (simp add: per_trial_timeout_def effective_timeout_def DEFAULT_TIMEOUT_def
        strategy_order_def strategies_def)
  have order: "strategy_order ''xpath''
       = [] @ ''xpath'' # [''id'', ''accessibility_id'', ''class_name'', ''android_uiautomator'']"
    by (simp add: strategy_order_def strategies_def)
  have raises: "trial_yields selector_fault_surface ''Login'' (per_trial_timeout None ''xpath'')
       ''xpath'' = Inl (WebDriverException ''InvalidSelectorException'')"
    by (simp add: trial_yields_def trial_def selector_fault_surface_def strategies_def)
  have plan: "trial_plan ''Login'' 3 ([] @ [''xpath'']) = [WaitCall (Trial ''xpath'') XPATH ''Login'' 3]"
    by (simp add: trial_plan_def trial_call_def strategies_def)
  have "find_element_safe (Some selector_fault_surface) ''xpath'' ''Login'' None
       = (Inl (WebDriverException ''InvalidSelectorException''),
          trial_plan ''Login'' (per_trial_timeout None ''xpath'') ([] @ [''xpath'']))"
    using resolution_exhausted
      [where d = selector_fault_surface and p = "''xpath''" and v = "''Login''"
         and timeout = None and drv = None and err' = TypeError and pre = "[]"
         and s = "''xpath''"
         and post = "[''id'', ''accessibility_id'', ''class_name'', ''android_uiautomator'']"
         and err = "WebDriverException ''InvalidSelectorException''"]
      order raises
    by auto
  then have fault: "find_element_safe (Some selector_fault_surface) ''xpath'' ''Login'' None
       = (Inl (WebDriverException ''InvalidSelectorException''),
          [WaitCall (Trial ''xpath'') XPATH ''Login'' 3])"
    unfolding w plan .
  from yields fb exhausted order raises fault show ?thesis by (intro conjI)
qed

text \<open>
  Claim C8, as stated, has the resolution fail with the not-found error whenever no trial
  yields an element and the text search finds nothing, and fail in no other case. Without
  a driver no trial is made and nothing is found, and the call returns \<^verbatim>\<open>None\<close> instead
  of failing. On the surface whose XPath waits raise \<^verbatim>\<open>InvalidSelectorException\<close>, with
  the primary strategy \<open>xpath\<close>, the call fails with that exception after one trial,
  although the \<open>id\<close> trial would have found a displayed element.
\<close>

theorem resolution_failure_counterexample:
  "find_element_safe (None :: nat driver option) ''id'' ''Login'' None = (Inr None, [])
   \<and> trial_yields selector_fault_surface ''Login'' (per_trial_timeout None ''xpath'') ''id''
       = Inr (Some 7)
   \<and> locate selector_fault_surface ID ''Login'' (per_trial_timeout None ''xpath'') = Returned 7
   \<and> find_element_safe (Some selector_fault_surface) ''xpath'' ''Login'' None
       = (Inl (WebDriverException ''InvalidSelectorException''),
          [WaitCall (Trial ''xpath'') XPATH ''Login'' 3])"
  by (simp add: find_element_safe_def selector_fault_surface_def trial_yields_def trial_def
      strategy_order_def strategies_def effective_timeout_def DEFAULT_TIMEOUT_def Let_def)


end
